theory Spec2Isabelle
  imports Main "HOL-Library.Word" "HOL-Library.AList"
begin

section \<open>Values shared by the two ends of the tunnel\<close>

text \<open>
  A \<open>Uint8Array\<close> is a list of bytes. Control sockets and the mock sockets handed to the
  host application are objects compared by identity (\<open>===\<close>); each is modelled by a
  number that names the object.
\<close>

type_synonym bytes = "8 word list"
type_synonym socket = nat
type_synonym mock = nat

text \<open>
  A value raised by \<open>throw\<close>: an \<open>Error\<close> with its message, or any other value
  (the code tests \<open>error instanceof Error\<close>).
\<close>

datatype thrown = ErrorObj string | NonError

subsection \<open>libsodium\<close>

text \<open>
  The calls into \<open>libsodium-wrappers\<close>, an external library, are parameters of the model.
  A call that throws returns \<open>None\<close>. The argument of \<open>from_string\<close> is \<open>None\<close> when it
  is \<open>undefined\<close> (what \<open>JSON.stringify\<close> returns for a value with no JSON text).
\<close>

record sodium =
  from_base64 :: "string \<Rightarrow> bytes option"
  to_base64 :: "bytes \<Rightarrow> string"
  from_string :: "string option \<Rightarrow> bytes option"
  to_string :: "bytes \<Rightarrow> string option"
  crypto_box_seal_open :: "bytes \<Rightarrow> bytes \<Rightarrow> bytes \<Rightarrow> bytes option"
  crypto_secretbox_easy :: "bytes \<Rightarrow> bytes \<Rightarrow> bytes \<Rightarrow> bytes option"
  crypto_secretbox_open_easy :: "bytes \<Rightarrow> bytes \<Rightarrow> bytes \<Rightarrow> bytes option"

section \<open>The tunnel server\<close>

subsection \<open>Messages\<close>

record http_request =
  req_requestId :: string
  req_method :: string
  req_url :: string
  req_headers :: "(string \<times> string) list"
  req_body :: "string option"

record http_response =
  res_requestId :: string
  res_status :: nat
  res_statusText :: string
  res_headers :: "(string \<times> string) list"
  res_body :: string
  res_error :: "string option"

datatype ws_data = TextData string | BinaryData bytes

datatype data_type = DTString | DTArrayBuffer

datatype event_type = EvOpen | EvClose | EvError

text \<open>
  Modelled from the spec: the message shapes of \<open>types.ts\<close>, which is not among the
  sources. Every message carries a \<open>type\<close> discriminator; the constructors are the values
  of that discriminator, and \<open>Unrecognized\<close> stands for every decoded value of another shape.
\<close>

datatype message =
    ServerKX string string
  | ClientKX string
  | Enc bytes bytes
  | HTTPRequest http_request
  | HTTPResponse http_response
  | ClientConnectEvent string string "string list option"
  | WSMessage string ws_data data_type
  | ClientCloseEvent string "nat option" "string option"
  | ServerEvent string event_type "nat option" "string option" "string option"
  | Unrecognized

text \<open>
  Modelled from the spec: the type guards of \<open>typeguards.ts\<close>, which is not among the
  sources. Each guard tests the \<open>type\<close> discriminator of a decoded message.
\<close>

fun isControlChannelKXConfirm :: "message \<Rightarrow> bool" where
  "isControlChannelKXConfirm (ClientKX _) = True"
| "isControlChannelKXConfirm _ = False"

fun isControlChannelEncryptedMessage :: "message \<Rightarrow> bool" where
  "isControlChannelEncryptedMessage (Enc _ _) = True"
| "isControlChannelEncryptedMessage _ = False"

fun isRAEncryptedHTTPRequest :: "message \<Rightarrow> bool" where
  "isRAEncryptedHTTPRequest (HTTPRequest _) = True"
| "isRAEncryptedHTTPRequest _ = False"

fun isRAEncryptedClientConnectEvent :: "message \<Rightarrow> bool" where
  "isRAEncryptedClientConnectEvent (ClientConnectEvent _ _ _) = True"
| "isRAEncryptedClientConnectEvent _ = False"

fun isRAEncryptedWSMessage :: "message \<Rightarrow> bool" where
  "isRAEncryptedWSMessage (WSMessage _ _ _) = True"
| "isRAEncryptedWSMessage _ = False"

fun isRAEncryptedClientCloseEvent :: "message \<Rightarrow> bool" where
  "isRAEncryptedClientCloseEvent (ClientCloseEvent _ _ _) = True"
| "isRAEncryptedClientCloseEvent _ = False"

subsection \<open>Collaborators of the server\<close>

text \<open>
  The request object \<open>httpMocks.createRequest\<close> builds for the host application.
\<close>

record mock_request =
  mr_method :: string
  mr_url :: string
  mr_path :: string
  mr_headers :: "(string \<times> string) list"
  mr_body :: "string option"
  mr_query :: "(string \<times> string) list"

text \<open>
  What the call \<open>this.app(req, res)\<close> does before it returns: it throws, or it returns.
  The \<open>end\<close> and \<open>error\<close> events of the response are events of their own
  (\<open>res_on_end\<close>, \<open>res_on_error\<close> below).
\<close>

datatype app_outcome = AppThrows thrown | AppReturns

text \<open>
  The server's environment: the CBOR codec (\<open>cbor-x\<close>), libsodium, the helpers of
  \<open>utils/server.ts\<close> and the mock WebSocket classes of \<open>ServerRAWebSocket.ts\<close> (neither file
  is among the sources), and the host application. For the mock classes the environment
  says which calls throw: \<open>emitClose\<close> and \<open>addClient\<close> run the host's listeners, which may
  raise.
\<close>

record server_env =
  sod :: sodium
  cbor_decode :: "bytes \<Rightarrow> message option"
  cbor_encode :: "message \<Rightarrow> bytes"
  parseUrl :: "string \<Rightarrow> thrown + (string \<times> (string \<times> string) list)"
  parseBody :: "string \<Rightarrow> string option \<Rightarrow> thrown + string"
  getStatusText :: "nat \<Rightarrow> string"
  sanitizeHeaders :: "(string \<times> string) list \<Rightarrow> (string \<times> string) list"
  app :: "mock_request \<Rightarrow> app_outcome"
  emitCloseThrows :: "mock \<Rightarrow> bool"
  deleteClientThrows :: "mock \<Rightarrow> bool"
  addClientThrows :: "mock \<Rightarrow> thrown option"

subsection \<open>State and effects\<close>

text \<open>
  The fields of \<open>TunnelServer\<close>. \<open>webSocketConnections\<close> is a JavaScript \<open>Map\<close>, which
  is iterated in insertion order, so it is an association list; \<open>symmetricKeyBySocket\<close> is
  only looked up. \<open>mocksCreated\<close> counts the mock sockets constructed so far and names
  the next one.
\<close>

record server_state =
  x25519PublicKey :: bytes
  x25519PrivateKey :: bytes
  quote :: bytes
  symmetricKeyBySocket :: "socket \<rightharpoonup> bytes"
  webSocketConnections :: "(string \<times> (mock \<times> socket)) list"
  mocksCreated :: nat

text \<open>
  What a message delivered to the host's mock socket carries: \<open>Buffer.from(data)\<close> when the
  data type is \<open>arraybuffer\<close>, the data as it is otherwise.
\<close>

datatype emitted = AsBuffer ws_data | AsIs ws_data

datatype effect =
    WsSend socket bytes
  | AppCalled mock_request
  | AddClient mock
  | DeleteClient mock
  | EmitMessage mock emitted
  | EmitClose mock "nat option" "string option"

subsection \<open>The upgrade handler\<close>

definition startsWith :: "string \<Rightarrow> string \<Rightarrow> bool" where
  "startsWith s p = (take (length p) s = p)"

datatype upgrade_action = HandleUpgrade | SocketDestroy

text \<open>\<open>req.url || ""\<close>: a missing URL is the empty string.\<close>

definition onUpgrade :: "string option \<Rightarrow> upgrade_action" where
  "onUpgrade req_url_opt =
     (let url = (case req_url_opt of None \<Rightarrow> [] | Some u \<Rightarrow> u)
      in if startsWith url ''/__ra__'' then HandleUpgrade else SocketDestroy)"

subsection \<open>Encryption for a socket\<close>

text \<open>
  The nonce argument is the value \<open>sodium.randombytes_buf\<close> returns in this call.
\<close>

definition encryptForSocket ::
  "server_env \<Rightarrow> server_state \<Rightarrow> socket \<Rightarrow> bytes \<Rightarrow> message \<Rightarrow> thrown + message" where
  "encryptForSocket E s controlWs nonce payload =
     (case symmetricKeyBySocket s controlWs of
        None \<Rightarrow> Inl (ErrorObj ''Missing symmetric key for socket (outbound)'')
      | Some key \<Rightarrow>
          (case crypto_secretbox_easy (sod E) (cbor_encode E payload) nonce key of
             None \<Rightarrow> Inl (ErrorObj ''crypto_secretbox_easy'')
           | Some ciphertext \<Rightarrow> Inr (Enc nonce ciphertext)))"

definition decryptEnvelopeForSocket ::
  "server_env \<Rightarrow> server_state \<Rightarrow> socket \<Rightarrow> message \<Rightarrow> thrown + message" where
  "decryptEnvelopeForSocket E s controlWs envelope =
     (case symmetricKeyBySocket s controlWs of
        None \<Rightarrow> Inl (ErrorObj ''Missing symmetric key for socket (inbound)'')
      | Some key \<Rightarrow>
          (case envelope of
             Enc nonce ciphertext \<Rightarrow>
               (case crypto_secretbox_open_easy (sod E) ciphertext nonce key of
                  None \<Rightarrow> Inl (ErrorObj ''crypto_secretbox_open_easy'')
                | Some plaintext \<Rightarrow>
                    (case cbor_decode E plaintext of
                       None \<Rightarrow> Inl (ErrorObj ''decode'')
                     | Some inner \<Rightarrow> Inr inner))
           | _ \<Rightarrow> Inl (ErrorObj ''crypto_secretbox_open_easy'')))"

definition sendEncrypted ::
  "server_env \<Rightarrow> server_state \<Rightarrow> socket \<Rightarrow> bytes \<Rightarrow> message \<Rightarrow> thrown + effect list" where
  "sendEncrypted E s controlWs nonce payload =
     (case encryptForSocket E s controlWs nonce payload of
        Inl e \<Rightarrow> Inl e
      | Inr env \<Rightarrow> Inr [WsSend controlWs (cbor_encode E env)])"

text \<open>
  Every call of \<open>sendEncrypted\<close> in the handlers stands in a \<open>try\<close> whose \<open>catch\<close> only
  logs: a failed send has no effect.
\<close>

definition trySendEncrypted ::
  "server_env \<Rightarrow> server_state \<Rightarrow> socket \<Rightarrow> bytes \<Rightarrow> message \<Rightarrow> effect list" where
  "trySendEncrypted E s controlWs nonce payload =
     (case sendEncrypted E s controlWs nonce payload of Inl _ \<Rightarrow> [] | Inr effs \<Rightarrow> effs)"

subsection \<open>Tunnelled HTTP requests\<close>

definition errorResponse :: "string \<Rightarrow> string \<Rightarrow> http_response" where
  "errorResponse requestId msg =
     \<lparr>res_requestId = requestId, res_status = 500,
      res_statusText = ''Internal Server Error'', res_headers = [], res_body = [],
      res_error = Some msg\<rparr>"

text \<open>
  The \<open>catch\<close> of \<open>#handleTunnelHttpRequest\<close>:
  \<open>error instanceof Error ? error.message : "Unknown error"\<close>.
\<close>

definition catchHttpRequest ::
  "server_env \<Rightarrow> server_state \<Rightarrow> socket \<Rightarrow> string \<Rightarrow> bytes \<Rightarrow> thrown \<Rightarrow> effect list" where
  "catchHttpRequest E s controlWs requestId nonce t =
     trySendEncrypted E s controlWs nonce
       (HTTPResponse (errorResponse requestId
          (case t of ErrorObj m \<Rightarrow> m | NonError \<Rightarrow> ''Unknown error'')))"

text \<open>
  The listeners \<open>res.on("end", ...)\<close> and \<open>res.on("error", ...)\<close>. Each closes over the
  control socket and the request id; it runs when the host's response emits the event,
  in the state of that moment. \<open>res.statusMessage || getStatusText(res.statusCode)\<close>
  takes the second operand when the status message is empty.
\<close>

definition res_on_end ::
  "server_env \<Rightarrow> server_state \<Rightarrow> socket \<Rightarrow> string \<Rightarrow> nat \<Rightarrow> string \<Rightarrow>
     (string \<times> string) list \<Rightarrow> string \<Rightarrow> bytes \<Rightarrow> effect list" where
  "res_on_end E s controlWs requestId statusCode statusMessage hdrs data nonce =
     trySendEncrypted E s controlWs nonce
       (HTTPResponse
          \<lparr>res_requestId = requestId, res_status = statusCode,
           res_statusText =
             (if statusMessage \<noteq> [] then statusMessage else getStatusText E statusCode),
           res_headers = sanitizeHeaders E hdrs, res_body = data, res_error = None\<rparr>)"

definition res_on_error ::
  "server_env \<Rightarrow> server_state \<Rightarrow> socket \<Rightarrow> string \<Rightarrow> string \<Rightarrow> bytes \<Rightarrow> effect list" where
  "res_on_error E s controlWs requestId msg nonce =
     trySendEncrypted E s controlWs nonce (HTTPResponse (errorResponse requestId msg))"

definition handleTunnelHttpRequest ::
  "server_env \<Rightarrow> server_state \<Rightarrow> socket \<Rightarrow> http_request \<Rightarrow> bytes \<Rightarrow> effect list" where
  "handleTunnelHttpRequest E s controlWs tunnelReq nonce =
     (case parseUrl E (req_url tunnelReq) of
        Inl t \<Rightarrow> catchHttpRequest E s controlWs (req_requestId tunnelReq) nonce t
      | Inr (pathname, query) \<Rightarrow>
          (case (case req_body tunnelReq of
                   None \<Rightarrow> Inr None
                 | Some b \<Rightarrow>
                     (case parseBody E b (map_of (req_headers tunnelReq) ''content-type'') of
                        Inl t \<Rightarrow> Inl t
                      | Inr parsed \<Rightarrow> Inr (Some parsed))) of
             Inl t \<Rightarrow> catchHttpRequest E s controlWs (req_requestId tunnelReq) nonce t
           | Inr parsedBody \<Rightarrow>
               (let req = \<lparr>mr_method = req_method tunnelReq, mr_url = req_url tunnelReq,
                           mr_path = pathname, mr_headers = req_headers tunnelReq,
                           mr_body = parsedBody, mr_query = query\<rparr>
                in case app E req of
                     AppThrows t \<Rightarrow>
                       AppCalled req #
                       catchHttpRequest E s controlWs (req_requestId tunnelReq) nonce t
                   | AppReturns \<Rightarrow> [AppCalled req])))"

subsection \<open>Tunnelled WebSocket sub-connections\<close>

text \<open>
  \<open>Map.set\<close> keeps the position of a key that is present and appends a new one, as
  \<open>AList.update\<close> does.
\<close>

definition handleTunnelWebSocketConnect ::
  "server_env \<Rightarrow> server_state \<Rightarrow> socket \<Rightarrow> string \<Rightarrow> bytes \<Rightarrow> server_state \<times> effect list" where
  "handleTunnelWebSocketConnect E s controlWs connectionId nonce =
     (let mockWs = mocksCreated s;
          s1 = s\<lparr>mocksCreated := Suc mockWs,
                 webSocketConnections :=
                   AList.update connectionId (mockWs, controlWs) (webSocketConnections s)\<rparr>
      in case addClientThrows E mockWs of
           None \<Rightarrow>
             (s1, AddClient mockWs #
                  trySendEncrypted E s1 controlWs nonce
                    (ServerEvent connectionId EvOpen None None None))
         | Some t \<Rightarrow>
             (s1, AddClient mockWs #
                  trySendEncrypted E s1 controlWs nonce
                    (ServerEvent connectionId EvError None None
                       (Some (case t of ErrorObj m \<Rightarrow> m | NonError \<Rightarrow> ''Connection failed'')))))"

definition handleTunnelWebSocketMessage ::
  "server_state \<Rightarrow> string \<Rightarrow> ws_data \<Rightarrow> data_type \<Rightarrow> effect list" where
  "handleTunnelWebSocketMessage s connectionId data dataType =
     (case map_of (webSocketConnections s) connectionId of
        None \<Rightarrow> []
      | Some (mockWs, controlWs) \<Rightarrow>
          [EmitMessage mockWs (if dataType = DTArrayBuffer then AsBuffer data else AsIs data)])"

definition handleTunnelWebSocketClose ::
  "server_state \<Rightarrow> string \<Rightarrow> nat option \<Rightarrow> string option \<Rightarrow> server_state \<times> effect list" where
  "handleTunnelWebSocketClose s connectionId code reason =
     (case map_of (webSocketConnections s) connectionId of
        None \<Rightarrow> (s, [])
      | Some (mockWs, controlWs) \<Rightarrow>
          (s\<lparr>webSocketConnections := AList.delete connectionId (webSocketConnections s)\<rparr>,
           [EmitClose mockWs code reason, DeleteClient mockWs]))"

text \<open>
  The callbacks a mock socket is constructed with: the host application sends a
  message, or closes the sub-connection. \<open>isTextData\<close> is a helper of \<open>utils/server.ts\<close>.
\<close>

datatype host_payload = PayloadString string | PayloadBuffer bytes string | PayloadOther string

definition mock_onSend ::
  "server_env \<Rightarrow> (bytes \<Rightarrow> bool) \<Rightarrow> server_state \<Rightarrow> socket \<Rightarrow> string \<Rightarrow> host_payload \<Rightarrow> bytes \<Rightarrow>
     effect list" where
  "mock_onSend E isTextData s controlWs connectionId payload nonce =
     trySendEncrypted E s controlWs nonce
       (case payload of
          PayloadString str \<Rightarrow> WSMessage connectionId (TextData str) DTString
        | PayloadBuffer b str \<Rightarrow>
            (if isTextData b then WSMessage connectionId (TextData str) DTString
             else WSMessage connectionId (BinaryData b) DTArrayBuffer)
        | PayloadOther str \<Rightarrow> WSMessage connectionId (TextData str) DTString)"

definition mock_onClose ::
  "server_env \<Rightarrow> server_state \<Rightarrow> socket \<Rightarrow> string \<Rightarrow> nat option \<Rightarrow> string option \<Rightarrow> bytes \<Rightarrow>
     effect list" where
  "mock_onClose E s controlWs connectionId code reason nonce =
     trySendEncrypted E s controlWs nonce (ServerEvent connectionId EvClose code reason None)"

subsection \<open>The control channel\<close>

text \<open>
  A new control socket: the server announces its key-exchange public key and the quote,
  unencrypted.
\<close>

definition onConnection :: "server_env \<Rightarrow> server_state \<Rightarrow> socket \<Rightarrow> effect list" where
  "onConnection E s controlWs =
     [WsSend controlWs
        (cbor_encode E
           (ServerKX (to_base64 (sod E) (x25519PublicKey s)) (to_base64 (sod E) (quote s))))]"

text \<open>
  The \<open>close\<close> listener. The loop visits the entries in order; an entry of this socket
  gets \<open>emitClose(1006, "tunnel closed")\<close>, then \<open>deleteClient\<close>, and its id is pushed on
  \<open>toRemove\<close>, unless one of the two calls throws (the \<open>catch\<close> logs and the loop goes on).
  The pair returned is the effects and \<open>toRemove\<close>.
\<close>

fun closeLoop ::
  "server_env \<Rightarrow> socket \<Rightarrow> (string \<times> (mock \<times> socket)) list \<Rightarrow> effect list \<times> string list" where
  "closeLoop E controlWs [] = ([], [])"
| "closeLoop E controlWs ((connId, (mockWs, connWs)) # entries) =
     (let (effs, toRemove) = closeLoop E controlWs entries
      in if connWs = controlWs then
           (if emitCloseThrows E mockWs then
              (EmitClose mockWs (Some 1006) (Some ''tunnel closed'') # effs, toRemove)
            else if deleteClientThrows E mockWs then
              (EmitClose mockWs (Some 1006) (Some ''tunnel closed'') # DeleteClient mockWs # effs,
               toRemove)
            else
              (EmitClose mockWs (Some 1006) (Some ''tunnel closed'') # DeleteClient mockWs # effs,
               connId # toRemove))
         else (effs, toRemove))"

definition onClose :: "server_env \<Rightarrow> server_state \<Rightarrow> socket \<Rightarrow> server_state \<times> effect list" where
  "onClose E s controlWs =
     (let s1 = s\<lparr>symmetricKeyBySocket := (symmetricKeyBySocket s)(controlWs := None)\<rparr>;
          (effs, toRemove) = closeLoop E controlWs (webSocketConnections s1)
      in (s1\<lparr>webSocketConnections := fold AList.delete toRemove (webSocketConnections s1)\<rparr>,
          effs))"

text \<open>
  The dispatch of a decrypted message by its type. A message of no tunnelled type falls
  through to the end of the \<open>emit\<close> override, which discards it.
\<close>

definition dispatch ::
  "server_env \<Rightarrow> server_state \<Rightarrow> socket \<Rightarrow> message \<Rightarrow> bytes \<Rightarrow> server_state \<times> effect list" where
  "dispatch E s controlWs inner nonce =
     (case inner of
        HTTPRequest tunnelReq \<Rightarrow> (s, handleTunnelHttpRequest E s controlWs tunnelReq nonce)
      | ClientConnectEvent connectionId u protocols \<Rightarrow>
          handleTunnelWebSocketConnect E s controlWs connectionId nonce
      | WSMessage connectionId data dataType \<Rightarrow>
          (s, handleTunnelWebSocketMessage s connectionId data dataType)
      | ClientCloseEvent connectionId code reason \<Rightarrow>
          handleTunnelWebSocketClose s connectionId code reason
      | _ \<Rightarrow> (s, []))"

text \<open>
  A \<open>client_kx\<close> message: the sealed key is decoded and opened, and stored when the
  socket has no key yet. A failure of either call is caught and logged.
\<close>

definition handleClientKX ::
  "server_env \<Rightarrow> server_state \<Rightarrow> socket \<Rightarrow> string \<Rightarrow> server_state" where
  "handleClientKX E s controlWs sealedSymmetricKey =
     (if symmetricKeyBySocket s controlWs = None then
        (case from_base64 (sod E) sealedSymmetricKey of
           None \<Rightarrow> s
         | Some sealed \<Rightarrow>
             (case crypto_box_seal_open (sod E) sealed (x25519PublicKey s) (x25519PrivateKey s) of
                None \<Rightarrow> s
              | Some opened \<Rightarrow>
                  s\<lparr>symmetricKeyBySocket := (symmetricKeyBySocket s)(controlWs \<mapsto> opened)\<rparr>))
      else s)"

text \<open>The \<open>emit\<close> override for the event \<open>message\<close>.\<close>

definition onMessage ::
  "server_env \<Rightarrow> server_state \<Rightarrow> socket \<Rightarrow> bytes \<Rightarrow> bytes \<Rightarrow> server_state \<times> effect list" where
  "onMessage E s controlWs data nonce =
     (case cbor_decode E data of
        None \<Rightarrow> (s, [])
      | Some msg \<Rightarrow>
          (if isControlChannelKXConfirm msg then
             (case msg of
                ClientKX sealedSymmetricKey \<Rightarrow> (handleClientKX E s controlWs sealedSymmetricKey, [])
              | _ \<Rightarrow> (s, []))
           else if symmetricKeyBySocket s controlWs = None then (s, [])
           else if \<not> isControlChannelEncryptedMessage msg then (s, [])
           else
             (case decryptEnvelopeForSocket E s controlWs msg of
                Inl e \<Rightarrow> (s, [])
              | Inr inner \<Rightarrow> dispatch E s controlWs inner nonce)))"

text \<open>
  The events a control socket emits, and the \<open>emit\<close> override: a message is handled as
  above, \<open>close\<close> goes to the original \<open>emit\<close> (which runs the \<open>close\<close> listener), every other
  event is discarded.
\<close>

datatype socket_event = MessageEvent bytes bytes | CloseEvent | OtherEvent

definition emit ::
  "server_env \<Rightarrow> server_state \<Rightarrow> socket \<Rightarrow> socket_event \<Rightarrow> server_state \<times> effect list" where
  "emit E s controlWs ev =
     (case ev of
        MessageEvent data nonce \<Rightarrow> onMessage E s controlWs data nonce
      | CloseEvent \<Rightarrow> onClose E s controlWs
      | OtherEvent \<Rightarrow> (s, []))"

text \<open>A run of the server over a sequence of events, each on some control socket.\<close>

fun run ::
  "server_env \<Rightarrow> server_state \<Rightarrow> (socket \<times> socket_event) list \<Rightarrow> server_state \<times> effect list" where
  "run E s [] = (s, [])"
| "run E s ((controlWs, ev) # evs) =
     (let (s1, effs1) = emit E s controlWs ev;
          (s2, effs2) = run E s1 evs
      in (s2, effs1 @ effs2))"

section \<open>The tunnel client\<close>

subsection \<open>JavaScript values and JSON\<close>

text \<open>
  The client passes values of any type (\<open>payload: unknown\<close>, \<open>message: any\<close>,
  \<open>init.body\<close>) to \<open>JSON.stringify\<close>. The values: \<open>undefined\<close>, \<open>null\<close>, booleans, numbers
  (the integers), strings, \<open>Uint8Array\<close>s, arrays, and plain objects as the list of
  their own properties.
\<close>

datatype jsval =
    JUndefined
  | JNull
  | JBool bool
  | JNum int
  | JStr string
  | JBytes bytes
  | JArr "jsval list"
  | JObj "(string \<times> jsval) list"

text \<open>The truth value of a JavaScript value in a condition.\<close>

fun js_truthy :: "jsval \<Rightarrow> bool" where
  "js_truthy JUndefined = False"
| "js_truthy JNull = False"
| "js_truthy (JBool b) = b"
| "js_truthy (JNum n) = (n \<noteq> 0)"
| "js_truthy (JStr str) = (str \<noteq> [])"
| "js_truthy (JBytes _) = True"
| "js_truthy (JArr _) = True"
| "js_truthy (JObj _) = True"

text \<open>
  \<open>JSON.stringify\<close> and \<open>JSON.parse\<close> are parameters of the client, with \<open>None\<close> for
  \<open>undefined\<close> (of \<open>stringify\<close>) and for a syntax error (of \<open>parse\<close>);
  \<open>controlUrlOf\<close> is the URL arithmetic that turns the origin into the control URL.
\<close>

record client_env =
  csod :: sodium
  JSON_stringify :: "jsval \<Rightarrow> string option"
  JSON_parse :: "string \<Rightarrow> jsval option"
  controlUrlOf :: "string \<Rightarrow> string"

subsection \<open>State and effects\<close>

datatype ready_state = CONNECTING | OPEN | CLOSING | CLOSED

text \<open>
  A promise created by \<open>fetch\<close> is named by a number; the entry of \<open>pendingRequests\<close> is
  the \<open>resolve\<close>/\<open>reject\<close> pair of that promise. \<open>ws\<close> is the ready state of the current
  control socket (\<open>None\<close> when \<open>this.ws\<close> is \<open>null\<close>); \<open>connectionPromise\<close> says whether
  the field is set.
\<close>

type_synonym promise = nat

record client_state =
  origin :: string
  ws :: "ready_state option"
  serverX25519PublicKey :: "bytes option"
  symmetricKey :: "bytes option"
  pendingRequests :: "string \<rightharpoonup> promise"
  tunnelWebSockets :: "string \<rightharpoonup> nat"
  reconnectDelay :: nat
  connectionPromise :: bool

text \<open>The two callbacks the client passes to \<open>setTimeout\<close>.\<close>

datatype timer_callback = Reconnect | RequestTimeout string promise

datatype client_effect =
    WsSendText "string option"
  | NewWebSocket string
  | SetTimeout timer_callback nat
  | Resolve promise string nat string "(string \<times> string) list"
  | Reject promise string

subsection \<open>Encryption\<close>

record TunnelEncrypted =
  te_nonce :: string
  te_ciphertext :: string

definition jsval_of_envelope :: "TunnelEncrypted \<Rightarrow> jsval" where
  "jsval_of_envelope e =
     JObj [(''type'', JStr ''enc''), (''nonce'', JStr (te_nonce e)),
           (''ciphertext'', JStr (te_ciphertext e))]"

definition encryptPayload ::
  "client_env \<Rightarrow> client_state \<Rightarrow> bytes \<Rightarrow> jsval \<Rightarrow> thrown + TunnelEncrypted" where
  "encryptPayload C s nonce payload =
     (case symmetricKey s of
        None \<Rightarrow> Inl (ErrorObj ''Missing symmetric key'')
      | Some key \<Rightarrow>
          (case from_string (csod C) (JSON_stringify C payload) of
             None \<Rightarrow> Inl (ErrorObj ''from_string'')
           | Some plaintext \<Rightarrow>
               (case crypto_secretbox_easy (csod C) plaintext nonce key of
                  None \<Rightarrow> Inl (ErrorObj ''crypto_secretbox_easy'')
                | Some ciphertext \<Rightarrow>
                    Inr \<lparr>te_nonce = to_base64 (csod C) nonce,
                         te_ciphertext = to_base64 (csod C) ciphertext\<rparr>)))"

definition decryptEnvelope ::
  "client_env \<Rightarrow> client_state \<Rightarrow> TunnelEncrypted \<Rightarrow> thrown + jsval" where
  "decryptEnvelope C s envelope =
     (case symmetricKey s of
        None \<Rightarrow> Inl (ErrorObj ''Missing symmetric key'')
      | Some key \<Rightarrow>
          (case from_base64 (csod C) (te_nonce envelope) of
             None \<Rightarrow> Inl (ErrorObj ''from_base64'')
           | Some nonce \<Rightarrow>
               (case from_base64 (csod C) (te_ciphertext envelope) of
                  None \<Rightarrow> Inl (ErrorObj ''from_base64'')
                | Some ciphertext \<Rightarrow>
                    (case crypto_secretbox_open_easy (csod C) ciphertext nonce key of
                       None \<Rightarrow> Inl (ErrorObj ''crypto_secretbox_open_easy'')
                     | Some plaintext \<Rightarrow>
                         (case to_string (csod C) plaintext of
                            None \<Rightarrow> Inl (ErrorObj ''to_string'')
                          | Some txt \<Rightarrow>
                              (case JSON_parse C txt of
                                 None \<Rightarrow> Inl (ErrorObj ''JSON.parse'')
                               | Some v \<Rightarrow> Inr v))))))"

subsection \<open>Sending\<close>

text \<open>\<open>typeof message === "object" && message?.type === "client_kx"\<close>.\<close>

fun is_client_kx :: "jsval \<Rightarrow> bool" where
  "is_client_kx (JObj members) = (map_of members ''type'' = Some (JStr ''client_kx''))"
| "is_client_kx _ = False"

definition send ::
  "client_env \<Rightarrow> client_state \<Rightarrow> bytes \<Rightarrow> jsval \<Rightarrow> thrown + client_effect list" where
  "send C s nonce msg =
     (if ws s = Some OPEN then
        (if is_client_kx msg then Inr [WsSendText (JSON_stringify C msg)]
         else
           (case symmetricKey s of
              None \<Rightarrow> Inl (ErrorObj ''Encryption not ready: missing symmetric key'')
            | Some key \<Rightarrow>
                (case encryptPayload C s nonce msg of
                   Inl e \<Rightarrow> Inl e
                 | Inr envelope \<Rightarrow>
                     Inr [WsSendText (JSON_stringify C (jsval_of_envelope envelope))])))
      else Inl (ErrorObj ''WebSocket not connected''))"

subsection \<open>Connection, close and responses\<close>

definition ensureConnection :: "client_env \<Rightarrow> client_state \<Rightarrow> client_state \<times> client_effect list" where
  "ensureConnection C s =
     (if ws s = Some OPEN then (s, [])
      else if connectionPromise s then (s, [])
      else (s\<lparr>ws := Some CONNECTING, connectionPromise := True\<rparr>,
            [NewWebSocket (controlUrlOf C (origin s))]))"

text \<open>
  \<open>ws.onclose\<close>: the socket has reached \<open>CLOSED\<close> when the event is delivered; the
  handler clears \<open>connectionPromise\<close> and schedules \<open>ensureConnection\<close>.
\<close>

definition ws_onclose :: "client_state \<Rightarrow> client_state \<times> client_effect list" where
  "ws_onclose s =
     (s\<lparr>ws := Some CLOSED, connectionPromise := False\<rparr>,
      [SetTimeout Reconnect (reconnectDelay s)])"

text \<open>\<open>if (response.error)\<close>: the field is present and not the empty string.\<close>

definition handleTunnelResponse ::
  "client_state \<Rightarrow> http_response \<Rightarrow> client_state \<times> client_effect list" where
  "handleTunnelResponse s response =
     (case pendingRequests s (res_requestId response) of
        None \<Rightarrow> (s, [])
      | Some pending \<Rightarrow>
          (let s1 = s\<lparr>pendingRequests := (pendingRequests s)(res_requestId response := None)\<rparr>
           in case res_error response of
                None \<Rightarrow>
                  (s1, [Resolve pending (res_body response) (res_status response)
                          (res_statusText response) (res_headers response)])
              | Some e \<Rightarrow>
                  (if e \<noteq> [] then (s1, [Reject pending e])
                   else (s1, [Resolve pending (res_body response) (res_status response)
                                (res_statusText response) (res_headers response)]))))"

subsection \<open>fetch\<close>

datatype request_info = InputString string | InputURL string | InputRequest string

datatype headers_init =
    HeadersObject "(string \<times> string) list"
  | HeadersArray "(string \<times> string) list"
  | HeadersRecord "(string \<times> string) list"

record request_init =
  init_method :: "string option"
  init_headers :: "headers_init option"
  init_body :: jsval

text \<open>
  The locals of \<open>fetch\<close>. \<open>InputURL\<close> carries the URL's \<open>toString()\<close>, \<open>InputRequest\<close> the
  request's \<open>url\<close>. Every form of \<open>init.headers\<close> is copied pair by pair with
  \<open>headers[key] = value\<close>.
\<close>

definition fetch_url :: "request_info \<Rightarrow> string" where
  "fetch_url input =
     (case input of InputString u \<Rightarrow> u | InputURL u \<Rightarrow> u | InputRequest u \<Rightarrow> u)"

definition fetch_method :: "request_init option \<Rightarrow> string" where
  "fetch_method init =
     (case init of
        None \<Rightarrow> ''GET''
      | Some i \<Rightarrow>
          (case init_method i of
             None \<Rightarrow> ''GET''
           | Some m \<Rightarrow> if m \<noteq> [] then m else ''GET''))"

definition fetch_headers :: "request_init option \<Rightarrow> (string \<times> string) list" where
  "fetch_headers init =
     (case init of
        None \<Rightarrow> []
      | Some i \<Rightarrow>
          (case init_headers i of
             None \<Rightarrow> []
           | Some (HeadersObject hs) \<Rightarrow> fold (\<lambda>(k, v). AList.update k v) hs []
           | Some (HeadersArray hs) \<Rightarrow> fold (\<lambda>(k, v). AList.update k v) hs []
           | Some (HeadersRecord hs) \<Rightarrow> fold (\<lambda>(k, v). AList.update k v) hs []))"

definition fetch_body :: "(jsval \<Rightarrow> string option) \<Rightarrow> request_init option \<Rightarrow> string option" where
  "fetch_body stringify init =
     (case init of
        None \<Rightarrow> None
      | Some i \<Rightarrow>
          (if js_truthy (init_body i) then
             (case init_body i of
                JStr str \<Rightarrow> Some str
              | b \<Rightarrow> stringify b)
           else None))"

definition tunnelRequest ::
  "(jsval \<Rightarrow> string option) \<Rightarrow> request_info \<Rightarrow> request_init option \<Rightarrow> string \<Rightarrow> http_request" where
  "tunnelRequest stringify input init requestId =
     \<lparr>req_requestId = requestId, req_method = fetch_method init, req_url = fetch_url input,
      req_headers = fetch_headers init, req_body = fetch_body stringify init\<rparr>"

text \<open>The object literal \<open>{ type: "http_request", requestId, method, url, headers, body }\<close>.\<close>

definition jsval_of_request :: "http_request \<Rightarrow> jsval" where
  "jsval_of_request r =
     JObj [(''type'', JStr ''http_request''), (''requestId'', JStr (req_requestId r)),
           (''method'', JStr (req_method r)), (''url'', JStr (req_url r)),
           (''headers'', JObj (map (\<lambda>kv. (fst kv, JStr (snd kv))) (req_headers r))),
           (''body'', (case req_body r of None \<Rightarrow> JUndefined | Some b \<Rightarrow> JStr b))]"

text \<open>
  \<open>fetch\<close> from the point where \<open>await this.ensureConnection()\<close> has resolved.
  \<open>requestId\<close> is what \<open>generateRequestId()\<close> returns, \<open>p\<close> the promise \<open>fetch\<close> returns,
  \<open>nonce\<close> the random bytes \<open>encryptPayload\<close> draws.
\<close>

definition fetch ::
  "client_env \<Rightarrow> client_state \<Rightarrow> request_info \<Rightarrow> request_init option \<Rightarrow> string \<Rightarrow> promise \<Rightarrow>
     bytes \<Rightarrow> client_state \<times> client_effect list" where
  "fetch C s input init requestId p nonce =
     (let s1 = s\<lparr>pendingRequests := (pendingRequests s)(requestId \<mapsto> p)\<rparr>
      in case send C s1 nonce
                (jsval_of_request (tunnelRequest (JSON_stringify C) input init requestId)) of
           Inl e \<Rightarrow>
             (s1, [Reject p (case e of ErrorObj m \<Rightarrow> m | NonError \<Rightarrow> ''WebSocket not connected'')])
         | Inr effs \<Rightarrow> (s1, effs @ [SetTimeout (RequestTimeout requestId p) 30000]))"

text \<open>The callback of the 30000 ms timer.\<close>

definition onRequestTimeout ::
  "client_state \<Rightarrow> string \<Rightarrow> promise \<Rightarrow> client_state \<times> client_effect list" where
  "onRequestTimeout s requestId p =
     (if pendingRequests s requestId \<noteq> None then
        (s\<lparr>pendingRequests := (pendingRequests s)(requestId := None)\<rparr>,
         [Reject p ''Request timeout''])
      else (s, []))"

text \<open>The events of the client, and a run over a sequence of them.\<close>

datatype client_event =
    Fetch request_info "request_init option" string promise bytes
  | Response http_response
  | TimerFired timer_callback
  | SocketClosed

definition client_step ::
  "client_env \<Rightarrow> client_state \<Rightarrow> client_event \<Rightarrow> client_state \<times> client_effect list" where
  "client_step C s ev =
     (case ev of
        Fetch input init requestId p nonce \<Rightarrow> fetch C s input init requestId p nonce
      | Response r \<Rightarrow> handleTunnelResponse s r
      | TimerFired Reconnect \<Rightarrow> ensureConnection C s
      | TimerFired (RequestTimeout requestId p) \<Rightarrow> onRequestTimeout s requestId p
      | SocketClosed \<Rightarrow> ws_onclose s)"

fun client_run ::
  "client_env \<Rightarrow> client_state \<Rightarrow> client_event list \<Rightarrow> client_state \<times> client_effect list" where
  "client_run C s [] = (s, [])"
| "client_run C s (ev # evs) =
     (let (s1, effs1) = client_step C s ev;
          (s2, effs2) = client_run C s1 evs
      in (s2, effs1 @ effs2))"

section \<open>JSON.stringify on JavaScript values\<close>

text \<open>
  \<open>JSON.stringify\<close> first turns a value into a JSON document and then writes the
  document as text. The first step is the language's \<open>SerializeJSONProperty\<close>:
  \<open>undefined\<close> has no document; inside an array it becomes \<open>null\<close>, and a property whose
  value is \<open>undefined\<close> is left out; a \<open>Uint8Array\<close> is an object, not an array, and is
  written as the object of its indices.
\<close>

datatype json =
    JsonNull
  | JsonBool bool
  | JsonNum int
  | JsonStr string
  | JsonArr "json list"
  | JsonObj "(string \<times> json) list"

fun decimal :: "nat \<Rightarrow> string" where
  "decimal n =
     (if n < 10 then [''0123456789'' ! n]
      else decimal (n div 10) @ [''0123456789'' ! (n mod 10)])"

declare decimal.simps [simp del]

definition index_members :: "bytes \<Rightarrow> (string \<times> json) list" where
  "index_members bs = map (\<lambda>(i, b). (decimal i, JsonNum (uint b))) (enumerate 0 bs)"

fun js_to_json :: "jsval \<Rightarrow> json option" where
  "js_to_json JUndefined = None"
| "js_to_json JNull = Some JsonNull"
| "js_to_json (JBool b) = Some (JsonBool b)"
| "js_to_json (JNum n) = Some (JsonNum n)"
| "js_to_json (JStr str) = Some (JsonStr str)"
| "js_to_json (JBytes bs) = Some (JsonObj (index_members bs))"
| "js_to_json (JArr vs) =
     Some (JsonArr (map (\<lambda>v. case js_to_json v of None \<Rightarrow> JsonNull | Some j \<Rightarrow> j) vs))"
| "js_to_json (JObj members) =
     Some (JsonObj (concat (map (\<lambda>kv. case js_to_json (snd kv) of
                                          None \<Rightarrow> []
                                        | Some j \<Rightarrow> [(fst kv, j)]) members)))"

text \<open>\<open>JSON.stringify\<close>, for any way \<open>render\<close> of writing a document as text.\<close>

definition js_JSON_stringify :: "(json \<Rightarrow> string) \<Rightarrow> jsval \<Rightarrow> string option" where
  "js_JSON_stringify render v = map_option render (js_to_json v)"

section \<open>Contracts of the libraries\<close>

text \<open>
  What the model assumes of libsodium where a claim depends on it: a secretbox made with
  a 24-byte nonce and a 32-byte key opens to its plaintext under the same nonce and key;
  base64 decoding inverts encoding; \<open>to_string\<close> inverts \<open>from_string\<close>.
\<close>

definition secretbox_correct :: "sodium \<Rightarrow> bool" where
  "secretbox_correct S =
     (\<forall>m n k. length n = 24 \<and> length k = 32 \<longrightarrow>
        (\<exists>c. crypto_secretbox_easy S m n k = Some c \<and>
             crypto_secretbox_open_easy S c n k = Some m))"

definition base64_correct :: "sodium \<Rightarrow> bool" where
  "base64_correct S = (\<forall>b. from_base64 S (to_base64 S b) = Some b)"

definition utf8_correct :: "sodium \<Rightarrow> bool" where
  "utf8_correct S = (\<forall>txt. \<exists>b. from_string S (Some txt) = Some b \<and> to_string S b = Some txt)"

section \<open>A small instance of the environments\<close>

text \<open>
  Concrete collaborators on which the model can be evaluated: a secretbox that writes
  nonce and key in front of the plaintext, a sealed box that writes the public key in
  front, bytes as characters, and a codec for a few messages.
\<close>

definition toy_sodium :: sodium where
  "toy_sodium =
     \<lparr>from_base64 = (\<lambda>txt. Some (map (\<lambda>c. word_of_nat (of_char c)) txt)),
      to_base64 = map (\<lambda>w. char_of (unat w)),
      from_string =
        (\<lambda>t. case t of None \<Rightarrow> Some [] | Some txt \<Rightarrow> Some (map (\<lambda>c. word_of_nat (of_char c)) txt)),
      to_string = (\<lambda>b. Some (map (\<lambda>w. char_of (unat w)) b)),
      crypto_box_seal_open =
        (\<lambda>sealed pk sk.
           if take (length pk) sealed = pk then Some (drop (length pk) sealed) else None),
      crypto_secretbox_easy =
        (\<lambda>m n k. if length n = 24 \<and> length k = 32 then Some (n @ k @ m) else None),
      crypto_secretbox_open_easy =
        (\<lambda>c n k.
           if length n = 24 \<and> length k = 32 \<and> take 56 c = n @ k then Some (drop 56 c)
           else None)\<rparr>"

definition toy_encode :: "message \<Rightarrow> bytes" where
  "toy_encode m =
     (case m of
        ClientKX txt \<Rightarrow> 1 # map (\<lambda>c. word_of_nat (of_char c)) txt
      | Enc n c \<Rightarrow> 2 # n @ c
      | ClientCloseEvent connectionId code reason \<Rightarrow>
          3 # map (\<lambda>c. word_of_nat (of_char c)) connectionId
      | HTTPResponse r \<Rightarrow> 4 # map (\<lambda>c. word_of_nat (of_char c)) (res_requestId r)
      | _ \<Rightarrow> [0])"

definition toy_decode :: "bytes \<Rightarrow> message option" where
  "toy_decode d =
     (case d of
        [] \<Rightarrow> None
      | tag # rest \<Rightarrow>
          (if tag = 1 then Some (ClientKX (map (\<lambda>w. char_of (unat w)) rest))
           else if tag = 2 then Some (Enc (take 24 rest) (drop 24 rest))
           else if tag = 3 then
             Some (ClientCloseEvent (map (\<lambda>w. char_of (unat w)) rest) None None)
           else if tag = 5 then
             Some (HTTPRequest
                     \<lparr>req_requestId = map (\<lambda>w. char_of (unat w)) rest, req_method = ''GET'',
                      req_url = ''/uptime'', req_headers = [], req_body = None\<rparr>)
           else Some Unrecognized))"

definition toy_env :: server_env where
  "toy_env =
     \<lparr>sod = toy_sodium, cbor_decode = toy_decode, cbor_encode = toy_encode,
      parseUrl = (\<lambda>u. Inr (u, [])), parseBody = (\<lambda>b ct. Inr b),
      getStatusText = (\<lambda>n. ''OK''), sanitizeHeaders = (\<lambda>hs. hs),
      app = (\<lambda>req. AppThrows (ErrorObj ''boom'')),
      emitCloseThrows = (\<lambda>m. False), deleteClientThrows = (\<lambda>m. False),
      addClientThrows = (\<lambda>m. None)\<rparr>"

definition toy_key :: bytes where
  "toy_key = replicate 32 7"

definition toy_nonce :: bytes where
  "toy_nonce = replicate 24 9"

definition toy_server :: server_state where
  "toy_server =
     \<lparr>x25519PublicKey = [1, 2], x25519PrivateKey = [3, 4], quote = [5],
      symmetricKeyBySocket = Map.empty, webSocketConnections = [], mocksCreated = 0\<rparr>"

definition toy_json :: "jsval \<Rightarrow> string option" where
  "toy_json v = (case v of JStr str \<Rightarrow> Some str | JUndefined \<Rightarrow> None | _ \<Rightarrow> Some ''{}'')"

definition toy_client_env :: client_env where
  "toy_client_env =
     \<lparr>csod = toy_sodium, JSON_stringify = toy_json, JSON_parse = (\<lambda>txt. Some (JStr txt)),
      controlUrlOf = (\<lambda>u. u @ ''/__ra__'')\<rparr>"

definition toy_client :: client_state where
  "toy_client =
     \<lparr>origin = ''http://localhost'', ws = Some OPEN, serverX25519PublicKey = None,
      symmetricKey = None, pendingRequests = Map.empty, tunnelWebSockets = Map.empty,
      reconnectDelay = 1000, connectionPromise = False\<rparr>"

definition toy_server_keyed :: server_state where
  "toy_server_keyed = toy_server\<lparr>symmetricKeyBySocket := [0 \<mapsto> toy_key]\<rparr>"

text \<open>
  A frame of the small instance: the envelope of a tunnelled \<open>GET /uptime\<close> with request
  id \<open>A\<close>, encrypted under \<open>toy_key\<close>.
\<close>

definition toy_frame :: bytes where
  "toy_frame = 2 # toy_nonce @ toy_nonce @ toy_key @ [5, 65]"

text \<open>
  A sequence of decrypted messages, each dispatched on some control socket; and whether a
  message opens the sub-connection \<open>c\<close>.
\<close>

fun connects :: "string \<Rightarrow> message \<Rightarrow> bool" where
  "connects c (ClientConnectEvent connectionId u protocols) = (connectionId = c)"
| "connects c _ = False"

fun dispatch_all ::
  "server_env \<Rightarrow> server_state \<Rightarrow> (socket \<times> message \<times> bytes) list \<Rightarrow> server_state \<times> effect list" where
  "dispatch_all E s [] = (s, [])"
| "dispatch_all E s ((controlWs, inner, nonce) # rest) =
     (let (s1, effs1) = dispatch E s controlWs inner nonce;
          (s2, effs2) = dispatch_all E s1 rest
      in (s2, effs1 @ effs2))"

text \<open>The small server with two sub-connections on socket 0.\<close>

definition toy_server_connected :: server_state where
  "toy_server_connected =
     toy_server_keyed\<lparr>webSocketConnections := [(''c1'', (0, 0)), (''c2'', (1, 0))], mocksCreated := 2\<rparr>"

text \<open>The small client with one pending request, and a tunnelled request for the small server.\<close>

definition toy_client_pending :: client_state where
  "toy_client_pending = toy_client\<lparr>pendingRequests := [''r1'' \<mapsto> 7]\<rparr>"

definition toy_request :: http_request where
  "toy_request =
     \<lparr>req_requestId = ''A'', req_method = ''GET'', req_url = ''/uptime'', req_headers = [],
      req_body = None\<rparr>"

definition toy_mock_request :: mock_request where
  "toy_mock_request =
     \<lparr>mr_method = ''GET'', mr_url = ''/uptime'', mr_path = ''/uptime'', mr_headers = [],
      mr_body = None, mr_query = []\<rparr>"

text \<open>
  Whether a client event concerns the waiter of a request id: an \<open>http_response\<close> with
  that id, or the firing of a request timer for that id.
\<close>

fun touches :: "string \<Rightarrow> client_event \<Rightarrow> bool" where
  "touches requestId (Response r) = (res_requestId r = requestId)"
| "touches requestId (TimerFired (RequestTimeout rid p)) = (rid = requestId)"
| "touches requestId _ = False"

text \<open>\<open>typeof v === "string"\<close>.\<close>

fun js_is_string :: "jsval \<Rightarrow> bool" where
  "js_is_string (JStr _) = True"
| "js_is_string _ = False"

text \<open>The small client after the handshake, and an \<open>init\<close> whose body is an object.\<close>

definition toy_client_ready :: client_state where
  "toy_client_ready = toy_client\<lparr>symmetricKey := Some toy_key\<rparr>"

definition toy_init :: request_init where
  "toy_init = \<lparr>init_method = Some ''POST'', init_headers = None, init_body = JObj [(''a'', JNum 1)]\<rparr>"

text \<open>
  The client with the language's own \<open>JSON.stringify\<close> (for any text rendering and any
  parser) over the small libsodium; and whether a payload comes back from
  \<open>decryptEnvelope\<close> after \<open>encryptPayload\<close>.
\<close>

definition js_client_env :: "(json \<Rightarrow> string) \<Rightarrow> (string \<Rightarrow> jsval option) \<Rightarrow> client_env" where
  "js_client_env render parse =
     \<lparr>csod = toy_sodium, JSON_stringify = js_JSON_stringify render, JSON_parse = parse,
      controlUrlOf = (\<lambda>u. u)\<rparr>"

definition round_trips :: "client_env \<Rightarrow> client_state \<Rightarrow> bytes \<Rightarrow> jsval \<Rightarrow> bool" where
  "round_trips C cs nonce payload =
     (case encryptPayload C cs nonce payload of
        Inl e \<Rightarrow> False
      | Inr envelope \<Rightarrow> decryptEnvelope C cs envelope = Inr payload)"

section \<open>Facts about the small instance\<close>

lemma byte_char_byte: "word_of_nat (of_char (char_of (unat (w :: 8 word)) :: char)) = w"
proof -
  have "unat w < 256" using unsigned_less [of w] by simp
  then show ?thesis by simp
qed

lemma toy_env_simps:
  "parseUrl toy_env u = Inr (u, [])" "parseBody toy_env b ct = Inr b"
  "app toy_env req = AppThrows (ErrorObj ''boom'')"
  "emitCloseThrows toy_env m = False" "deleteClientThrows toy_env m = False"
  "addClientThrows toy_env m = None"
  by (simp_all add: toy_env_def)

lemma toy_frame_decode:
  "cbor_decode toy_env toy_frame = Some (Enc toy_nonce (toy_nonce @ toy_key @ [5, 65]))"
  by (simp add: toy_frame_def toy_env_def toy_decode_def toy_nonce_def)

lemma toy_frame_decrypt:
  "decryptEnvelopeForSocket toy_env toy_server_keyed 0 (Enc toy_nonce (toy_nonce @ toy_key @ [5, 65])) =
   Inr (HTTPRequest \<lparr>req_requestId = [char_of (65 :: nat)], req_method = ''GET'',
                     req_url = ''/uptime'', req_headers = [], req_body = None\<rparr>)"
  by (simp add: decryptEnvelopeForSocket_def toy_server_keyed_def toy_server_def toy_env_def
        toy_sodium_def toy_decode_def toy_nonce_def toy_key_def)

lemma toy_keyed_key: "symmetricKeyBySocket toy_server_keyed 0 = Some toy_key"
  by (simp add: toy_server_keyed_def)

lemma toy_frame_handled:
  "onMessage toy_env toy_server_keyed 0 toy_frame toy_nonce \<noteq> (toy_server_keyed, [])"
  by (simp add: onMessage_def toy_frame_decode toy_frame_decrypt dispatch_def
        handleTunnelHttpRequest_def toy_env_simps toy_keyed_key)

section \<open>The upgrade path\<close>

lemma startsWith_iff: "startsWith s p \<longleftrightarrow> (\<exists>rest. s = p @ rest)"
  unfolding startsWith_def
  by (metis append_eq_conv_conj append_take_drop_id)

text \<open>
  Claim C6, as the code has it. The upgrade handler tests \<open>url.startsWith("/__ra__")\<close>:
  every upgrade request whose URL starts with \<open>/__ra__\<close> is handed to the control-channel
  WebSocket server, and the socket of every request whose URL does not start with
  \<open>/__ra__\<close> (a missing URL included) is destroyed. So a URL that is handed over has
  \<open>/__ra__\<close> as its first seven characters.
\<close>

theorem upgrade_routes_by_prefix:
  "onUpgrade (Some (''/__ra__'' @ rest)) = HandleUpgrade \<and>
   ((\<forall>rest. url \<noteq> ''/__ra__'' @ rest) \<longrightarrow> onUpgrade (Some url) = SocketDestroy) \<and>
   onUpgrade None = SocketDestroy \<and>
   (onUpgrade (Some url) = HandleUpgrade \<longrightarrow> take 7 url = ''/__ra__'')"
  unfolding onUpgrade_def Let_def
  by (auto simp add: startsWith_iff)

theorem upgrade_witness:
  "onUpgrade (Some (''/__ra__'' @ ''?x=1'')) = HandleUpgrade \<and>
   (\<forall>rest. ''/chat'' \<noteq> ''/__ra__'' @ rest) \<and> onUpgrade (Some ''/chat'') = SocketDestroy \<and>
   onUpgrade None = SocketDestroy \<and>
   onUpgrade (Some ''/__ra__'') = HandleUpgrade \<and> take 7 ''/__ra__'' = ''/__ra__''"
  using upgrade_routes_by_prefix [of "''?x=1''" "''/chat''"]
        upgrade_routes_by_prefix [of "[]" "''/__ra__''"]
  by (simp add: onUpgrade_def startsWith_def)

text \<open>
  The claim as it is worded fails: \<open>/__ra__evil\<close> is not the control path, and its
  upgrade is handed to the control-channel server all the same.
\<close>

theorem upgrade_counterexample:
  "''/__ra__evil'' \<noteq> ''/__ra__'' \<and> onUpgrade (Some ''/__ra__evil'') = HandleUpgrade"
  by (simp add: onUpgrade_def startsWith_def)

section \<open>The key of a control socket\<close>

lemma handleClientKX_other:
  "w \<noteq> controlWs \<Longrightarrow>
   symmetricKeyBySocket (handleClientKX E s controlWs sealed) w = symmetricKeyBySocket s w"
  by (simp add: handleClientKX_def split: option.splits)

lemma handleClientKX_keeps:
  "symmetricKeyBySocket s controlWs = Some k \<Longrightarrow> handleClientKX E s controlWs sealed = s"
  by (simp add: handleClientKX_def)

lemma connect_keys:
  "symmetricKeyBySocket (fst (handleTunnelWebSocketConnect E s controlWs c n)) =
   symmetricKeyBySocket s"
  by (simp add: handleTunnelWebSocketConnect_def Let_def split: option.splits)

lemma close_keys:
  "symmetricKeyBySocket (fst (handleTunnelWebSocketClose s c code reason)) =
   symmetricKeyBySocket s"
  by (simp add: handleTunnelWebSocketClose_def split: option.splits prod.splits)

lemma dispatch_keys:
  "symmetricKeyBySocket (fst (dispatch E s controlWs inner n)) = symmetricKeyBySocket s"
  by (cases inner) (simp_all add: dispatch_def connect_keys close_keys)

lemma onMessage_key_kept:
  assumes k: "symmetricKeyBySocket s w = Some k"
  shows "symmetricKeyBySocket (fst (onMessage E s controlWs d n)) w = Some k"
proof (cases "cbor_decode E d")
  case None
  with k show ?thesis by (simp add: onMessage_def)
next
  case (Some msg)
  show ?thesis
  proof (cases "isControlChannelKXConfirm msg")
    case True
    then obtain sealed where m: "msg = ClientKX sealed" by (cases msg) simp_all
    show ?thesis
    proof (cases "w = controlWs")
      case True
      with k m Some show ?thesis by (simp add: onMessage_def handleClientKX_keeps)
    next
      case False
      with k m Some show ?thesis by (simp add: onMessage_def handleClientKX_other)
    qed
  next
    case False
    with k Some show ?thesis
      by (simp add: onMessage_def dispatch_keys split: sum.splits)
  qed
qed

lemma onClose_key_kept:
  "w \<noteq> controlWs \<Longrightarrow>
   symmetricKeyBySocket (fst (onClose E s controlWs)) w = symmetricKeyBySocket s w"
  by (simp add: onClose_def Let_def split: prod.splits)

lemma emit_key_kept:
  "symmetricKeyBySocket s w = Some k \<Longrightarrow> (controlWs, ev) \<noteq> (w, CloseEvent) \<Longrightarrow>
   symmetricKeyBySocket (fst (emit E s controlWs ev)) w = Some k"
  by (cases ev) (auto simp add: emit_def onMessage_key_kept onClose_key_kept)

lemma run_key_kept:
  "symmetricKeyBySocket s w = Some k \<Longrightarrow> (w, CloseEvent) \<notin> set evs \<Longrightarrow>
   symmetricKeyBySocket (fst (run E s evs)) w = Some k"
proof (induction evs arbitrary: s)
  case Nil
  then show ?case by simp
next
  case (Cons e evs)
  obtain controlWs ev where e: "e = (controlWs, ev)" by (cases e)
  from Cons.prems e have ne: "(controlWs, ev) \<noteq> (w, CloseEvent)" by auto
  have "symmetricKeyBySocket (fst (emit E s controlWs ev)) w = Some k"
    using Cons.prems(1) ne by (rule emit_key_kept)
  moreover from Cons.prems have "(w, CloseEvent) \<notin> set evs" by simp
  ultimately have "symmetricKeyBySocket (fst (run E (fst (emit E s controlWs ev)) evs)) w = Some k"
    by (rule Cons.IH)
  then show ?case by (simp add: e split_def Let_def)
qed

text \<open>
  Claim C1. On a socket with no key, a \<open>client_kx\<close> whose sealed key opens stores the
  opened key for that socket and does nothing else; one whose sealed key does not decode
  or does not open changes nothing. On a socket with a key, a \<open>client_kx\<close> changes
  nothing and has no effect. And over any sequence of events on any
  sockets in which this socket does not close, the key the socket has stays the key it
  has: at most one \<open>client_kx\<close> installs a key.
\<close>

theorem client_kx_installs_key_once:
  "(symmetricKeyBySocket s controlWs = None \<and> cbor_decode E d = Some (ClientKX sealedKey) \<and>
    from_base64 (sod E) sealedKey = Some sealed \<and>
    crypto_box_seal_open (sod E) sealed (x25519PublicKey s) (x25519PrivateKey s) = Some k
    \<longrightarrow> onMessage E s controlWs d n =
          (s\<lparr>symmetricKeyBySocket := (symmetricKeyBySocket s)(controlWs \<mapsto> k)\<rparr>, [])) \<and>
   (symmetricKeyBySocket s controlWs = None \<and> cbor_decode E d = Some (ClientKX sealedKey) \<and>
    (from_base64 (sod E) sealedKey = None \<or>
     from_base64 (sod E) sealedKey = Some sealed \<and>
     crypto_box_seal_open (sod E) sealed (x25519PublicKey s) (x25519PrivateKey s) = None)
    \<longrightarrow> onMessage E s controlWs d n = (s, [])) \<and>
   (symmetricKeyBySocket s controlWs = Some k' \<and> cbor_decode E d = Some (ClientKX sealedKey)
    \<longrightarrow> onMessage E s controlWs d n = (s, [])) \<and>
   (symmetricKeyBySocket s controlWs = Some k' \<and> (controlWs, CloseEvent) \<notin> set evs
    \<longrightarrow> symmetricKeyBySocket (fst (run E s evs)) controlWs = Some k')"
proof (intro conjI impI)
  assume "symmetricKeyBySocket s controlWs = None \<and> cbor_decode E d = Some (ClientKX sealedKey) \<and>
    from_base64 (sod E) sealedKey = Some sealed \<and>
    crypto_box_seal_open (sod E) sealed (x25519PublicKey s) (x25519PrivateKey s) = Some k"
  then show "onMessage E s controlWs d n =
          (s\<lparr>symmetricKeyBySocket := (symmetricKeyBySocket s)(controlWs \<mapsto> k)\<rparr>, [])"
    by (simp add: onMessage_def handleClientKX_def)
next
  assume "symmetricKeyBySocket s controlWs = None \<and> cbor_decode E d = Some (ClientKX sealedKey) \<and>
    (from_base64 (sod E) sealedKey = None \<or>
     from_base64 (sod E) sealedKey = Some sealed \<and>
     crypto_box_seal_open (sod E) sealed (x25519PublicKey s) (x25519PrivateKey s) = None)"
  then show "onMessage E s controlWs d n = (s, [])"
    by (auto simp add: onMessage_def handleClientKX_def)
next
  assume "symmetricKeyBySocket s controlWs = Some k' \<and> cbor_decode E d = Some (ClientKX sealedKey)"
  then show "onMessage E s controlWs d n = (s, [])"
    by (simp add: onMessage_def handleClientKX_def)
next
  assume "symmetricKeyBySocket s controlWs = Some k' \<and> (controlWs, CloseEvent) \<notin> set evs"
  then show "symmetricKeyBySocket (fst (run E s evs)) controlWs = Some k'"
    by (simp add: run_key_kept)
qed

theorem client_kx_witness:
  "symmetricKeyBySocket toy_server 0 = None \<and>
   cbor_decode toy_env [1, 1, 2, 7] = Some (ClientKX (map (\<lambda>w. char_of (unat w)) [1, 2, 7 :: 8 word])) \<and>
   from_base64 (sod toy_env) (map (\<lambda>w. char_of (unat w)) [1, 2, 7 :: 8 word]) = Some [1, 2, 7] \<and>
   crypto_box_seal_open (sod toy_env) [1, 2, 7]
     (x25519PublicKey toy_server) (x25519PrivateKey toy_server) = Some [7] \<and>
   onMessage toy_env toy_server 0 [1, 1, 2, 7] [] =
     (toy_server\<lparr>symmetricKeyBySocket := (symmetricKeyBySocket toy_server)(0 \<mapsto> [7])\<rparr>, []) \<and>
   cbor_decode toy_env [1, 9, 9] = Some (ClientKX (map (\<lambda>w. char_of (unat w)) [9, 9 :: 8 word])) \<and>
   from_base64 (sod toy_env) (map (\<lambda>w. char_of (unat w)) [9, 9 :: 8 word]) = Some [9, 9] \<and>
   crypto_box_seal_open (sod toy_env) [9, 9]
     (x25519PublicKey toy_server) (x25519PrivateKey toy_server) = None \<and>
   onMessage toy_env toy_server 0 [1, 9, 9] [] = (toy_server, []) \<and>
   symmetricKeyBySocket toy_server_keyed 0 = Some toy_key \<and>
   onMessage toy_env toy_server_keyed 0 [1, 1, 2, 7] [] = (toy_server_keyed, []) \<and>
   (0 :: socket, CloseEvent) \<notin>
     set [(0, MessageEvent [1, 1, 2, 7] []), (2, CloseEvent), (0, OtherEvent)] \<and>
   symmetricKeyBySocket
     (fst (run toy_env toy_server_keyed
             [(0, MessageEvent [1, 1, 2, 7] []), (2, CloseEvent), (0, OtherEvent)])) 0 =
     Some toy_key"
  using client_kx_installs_key_once
          [of toy_server 0 toy_env "[1, 1, 2, 7]" "map (\<lambda>w. char_of (unat w)) [1, 2, 7 :: 8 word]"
              "[1, 2, 7]" "[7]" "[]" toy_key "[]"]
        client_kx_installs_key_once
          [of toy_server 0 toy_env "[1, 9, 9]" "map (\<lambda>w. char_of (unat w)) [9, 9 :: 8 word]"
              "[9, 9]" "[7]" "[]" toy_key "[]"]
        client_kx_installs_key_once
          [of toy_server_keyed 0 toy_env "[1, 1, 2, 7]"
              "map (\<lambda>w. char_of (unat w)) [1, 2, 7 :: 8 word]"
              "[1, 2, 7]" "[7]" "[]" toy_key
              "[(0, MessageEvent [1, 1, 2, 7] []), (2, CloseEvent), (0, OtherEvent)]"]
  by (simp add: toy_server_def toy_server_keyed_def toy_env_def toy_decode_def toy_sodium_def
        byte_char_byte)

section \<open>Plaintext on the control channel\<close>

text \<open>
  Claim C2. Once a socket has a key, an inbound message that is not an encrypted
  envelope is dropped: the state is unchanged and nothing is sent or delivered. Before
  the key is installed, every inbound message other than \<open>client_kx\<close> is dropped. And
  whenever a message other than \<open>client_kx\<close> does have an effect, it is an envelope that
  decrypted under the socket's key, and what is dispatched is the decrypted message.
\<close>

theorem plaintext_dropped:
  "(symmetricKeyBySocket s controlWs = Some k \<and> cbor_decode E d = Some msg \<and>
    \<not> isControlChannelEncryptedMessage msg
    \<longrightarrow> onMessage E s controlWs d n = (s, [])) \<and>
   (symmetricKeyBySocket s controlWs = None \<and> cbor_decode E d = Some msg \<and>
    \<not> isControlChannelKXConfirm msg
    \<longrightarrow> onMessage E s controlWs d n = (s, [])) \<and>
   (cbor_decode E d = Some msg \<and> \<not> isControlChannelKXConfirm msg \<and>
    onMessage E s controlWs d n \<noteq> (s, [])
    \<longrightarrow> (\<exists>nonce ciphertext inner key.
           msg = Enc nonce ciphertext \<and> symmetricKeyBySocket s controlWs = Some key \<and>
           decryptEnvelopeForSocket E s controlWs msg = Inr inner \<and>
           onMessage E s controlWs d n = dispatch E s controlWs inner n))"
proof (intro conjI impI)
  assume a: "symmetricKeyBySocket s controlWs = Some k \<and> cbor_decode E d = Some msg \<and>
    \<not> isControlChannelEncryptedMessage msg"
  then show "onMessage E s controlWs d n = (s, [])"
    by (cases msg) (simp_all add: onMessage_def handleClientKX_def)
next
  assume "symmetricKeyBySocket s controlWs = None \<and> cbor_decode E d = Some msg \<and>
    \<not> isControlChannelKXConfirm msg"
  then show "onMessage E s controlWs d n = (s, [])"
    by (simp add: onMessage_def)
next
  assume a: "cbor_decode E d = Some msg \<and> \<not> isControlChannelKXConfirm msg \<and>
    onMessage E s controlWs d n \<noteq> (s, [])"
  then have key: "symmetricKeyBySocket s controlWs \<noteq> None"
    by (auto simp add: onMessage_def split: if_splits)
  then obtain key where k: "symmetricKeyBySocket s controlWs = Some key" by auto
  from a k have enc: "isControlChannelEncryptedMessage msg"
    by (auto simp add: onMessage_def split: if_splits)
  then obtain nonce ciphertext where m: "msg = Enc nonce ciphertext" by (cases msg) simp_all
  from a k m obtain inner where i: "decryptEnvelopeForSocket E s controlWs msg = Inr inner"
    by (cases "decryptEnvelopeForSocket E s controlWs msg") (auto simp add: onMessage_def)
  from a k m i have "onMessage E s controlWs d n = dispatch E s controlWs inner n"
    by (simp add: onMessage_def)
  with k m i show "\<exists>nonce ciphertext inner key.
           msg = Enc nonce ciphertext \<and> symmetricKeyBySocket s controlWs = Some key \<and>
           decryptEnvelopeForSocket E s controlWs msg = Inr inner \<and>
           onMessage E s controlWs d n = dispatch E s controlWs inner n"
    by blast
qed

theorem plaintext_dropped_witness:
  "symmetricKeyBySocket toy_server_keyed 0 = Some toy_key \<and>
   cbor_decode toy_env [5, 65] =
     Some (HTTPRequest \<lparr>req_requestId = [char_of (65 :: nat)], req_method = ''GET'',
                         req_url = ''/uptime'', req_headers = [], req_body = None\<rparr>) \<and>
   \<not> isControlChannelEncryptedMessage
       (HTTPRequest \<lparr>req_requestId = [char_of (65 :: nat)], req_method = ''GET'',
                      req_url = ''/uptime'', req_headers = [], req_body = None\<rparr>) \<and>
   onMessage toy_env toy_server_keyed 0 [5, 65] [] = (toy_server_keyed, []) \<and>
   symmetricKeyBySocket toy_server 0 = None \<and>
   \<not> isControlChannelKXConfirm
       (HTTPRequest \<lparr>req_requestId = [char_of (65 :: nat)], req_method = ''GET'',
                      req_url = ''/uptime'', req_headers = [], req_body = None\<rparr>) \<and>
   onMessage toy_env toy_server 0 [5, 65] [] = (toy_server, []) \<and>
   cbor_decode toy_env toy_frame = Some (Enc toy_nonce (toy_nonce @ toy_key @ [5, 65])) \<and>
   \<not> isControlChannelKXConfirm (Enc toy_nonce (toy_nonce @ toy_key @ [5, 65])) \<and>
   onMessage toy_env toy_server_keyed 0 toy_frame toy_nonce \<noteq> (toy_server_keyed, []) \<and>
   (\<exists>nonce ciphertext inner key.
      Enc toy_nonce (toy_nonce @ toy_key @ [5, 65]) = Enc nonce ciphertext \<and>
      symmetricKeyBySocket toy_server_keyed 0 = Some key \<and>
      decryptEnvelopeForSocket toy_env toy_server_keyed 0
        (Enc toy_nonce (toy_nonce @ toy_key @ [5, 65])) = Inr inner \<and>
      onMessage toy_env toy_server_keyed 0 toy_frame toy_nonce =
        dispatch toy_env toy_server_keyed 0 inner toy_nonce)"
proof -
  let ?req = "HTTPRequest \<lparr>req_requestId = [char_of (65 :: nat)], req_method = ''GET'',
                         req_url = ''/uptime'', req_headers = [], req_body = None\<rparr>"
  have k: "symmetricKeyBySocket toy_server_keyed 0 = Some toy_key"
    by (simp add: toy_server_keyed_def)
  have nk: "symmetricKeyBySocket toy_server 0 = None"
    by (simp add: toy_server_def)
  have d: "cbor_decode toy_env [5, 65] = Some ?req"
    by (simp add: toy_env_def toy_decode_def)
  have p1: "onMessage toy_env toy_server_keyed 0 [5, 65] [] = (toy_server_keyed, [])"
    using plaintext_dropped [of toy_server_keyed 0 toy_key toy_env "[5, 65]" ?req "[]"] k d
    by simp
  have p2: "onMessage toy_env toy_server 0 [5, 65] [] = (toy_server, [])"
    using plaintext_dropped [of toy_server 0 toy_key toy_env "[5, 65]" ?req "[]"] nk d
    by simp
  have p3: "\<exists>nonce ciphertext inner key.
      Enc toy_nonce (toy_nonce @ toy_key @ [5, 65]) = Enc nonce ciphertext \<and>
      symmetricKeyBySocket toy_server_keyed 0 = Some key \<and>
      decryptEnvelopeForSocket toy_env toy_server_keyed 0
        (Enc toy_nonce (toy_nonce @ toy_key @ [5, 65])) = Inr inner \<and>
      onMessage toy_env toy_server_keyed 0 toy_frame toy_nonce =
        dispatch toy_env toy_server_keyed 0 inner toy_nonce"
    using plaintext_dropped [of toy_server_keyed 0 toy_key toy_env toy_frame
            "Enc toy_nonce (toy_nonce @ toy_key @ [5, 65])" toy_nonce]
          toy_frame_decode toy_frame_handled
    by simp
  from k nk d p1 p2 p3 toy_frame_decode toy_frame_handled show ?thesis by simp
qed

section \<open>Closed sub-connections\<close>

lemma close_absent:
  "map_of (webSocketConnections (fst (handleTunnelWebSocketClose s c code reason))) c = None"
  by (cases "map_of (webSocketConnections s) c")
     (auto simp add: handleTunnelWebSocketClose_def delete_conv')

lemma dispatch_absent:
  "map_of (webSocketConnections s) c = None \<Longrightarrow> \<not> connects c inner \<Longrightarrow>
   map_of (webSocketConnections (fst (dispatch E s controlWs inner n))) c = None"
  by (cases inner)
     (auto simp add: dispatch_def handleTunnelWebSocketConnect_def
        handleTunnelWebSocketClose_def Let_def update_conv' delete_conv'
        split: option.splits)

lemma dispatch_all_absent:
  "map_of (webSocketConnections s) c = None \<Longrightarrow>
   \<not> list_ex (\<lambda>(w, m, n). connects c m) ms \<Longrightarrow>
   map_of (webSocketConnections (fst (dispatch_all E s ms))) c = None"
proof (induction ms arbitrary: s)
  case Nil
  then show ?case by simp
next
  case (Cons x ms)
  obtain w m n where x: "x = (w, m, n)" by (cases x)
  from Cons.prems x have nc: "\<not> connects c m" and rest: "\<not> list_ex (\<lambda>(w, m, n). connects c m) ms"
    by simp_all
  have "map_of (webSocketConnections (fst (dispatch E s w m n))) c = None"
    using Cons.prems(1) nc by (rule dispatch_absent)
  then have "map_of (webSocketConnections (fst (dispatch_all E (fst (dispatch E s w m n)) ms))) c = None"
    using rest by (rule Cons.IH)
  then show ?case by (simp add: x split_def Let_def)
qed

lemma absent_no_effect:
  "map_of (webSocketConnections s) c = None \<Longrightarrow>
   dispatch E s controlWs (WSMessage c dat dt) n = (s, []) \<and>
   dispatch E s controlWs (ClientCloseEvent c code reason) n = (s, [])"
  by (simp add: dispatch_def handleTunnelWebSocketMessage_def handleTunnelWebSocketClose_def)

text \<open>
  Claim C7, as the code has it. Handling \<open>ws_client_close\<close> for a tracked connection id emits the close to
  the host's mock socket, deletes the client and removes the id from the connection map.
  From then on, whatever decrypted messages are dispatched on whatever sockets, as long
  as none of them is a \<open>ws_client_connect\<close> that opens a new sub-connection under the
  same id, the id stays out of the map, and a \<open>ws_message\<close> or \<open>ws_client_close\<close>
  carrying it leaves the server state unchanged and has no effect at all: nothing is
  delivered to the host application.
\<close>

theorem closed_subconnection_is_inert:
  "(map_of (webSocketConnections s) c = Some (mockWs, connWs) \<longrightarrow>
      handleTunnelWebSocketClose s c code reason =
        (s\<lparr>webSocketConnections := AList.delete c (webSocketConnections s)\<rparr>,
         [EmitClose mockWs code reason, DeleteClient mockWs])) \<and>
   (\<not> list_ex (\<lambda>(w, m, n). connects c m) ms \<longrightarrow>
      (let s1 = fst (handleTunnelWebSocketClose s c code reason);
           s2 = fst (dispatch_all E s1 ms)
       in map_of (webSocketConnections s2) c = None \<and>
          dispatch E s2 controlWs (WSMessage c dat dt) n = (s2, []) \<and>
          dispatch E s2 controlWs (ClientCloseEvent c code' reason') n = (s2, [])))"
proof (intro conjI impI)
  assume "map_of (webSocketConnections s) c = Some (mockWs, connWs)"
  then show "handleTunnelWebSocketClose s c code reason =
        (s\<lparr>webSocketConnections := AList.delete c (webSocketConnections s)\<rparr>,
         [EmitClose mockWs code reason, DeleteClient mockWs])"
    by (simp add: handleTunnelWebSocketClose_def)
next
  assume nc: "\<not> list_ex (\<lambda>(w, m, n). connects c m) ms"
  have "map_of (webSocketConnections
                  (fst (dispatch_all E (fst (handleTunnelWebSocketClose s c code reason)) ms))) c = None"
    using close_absent nc by (rule dispatch_all_absent)
  then show "let s1 = fst (handleTunnelWebSocketClose s c code reason);
           s2 = fst (dispatch_all E s1 ms)
       in map_of (webSocketConnections s2) c = None \<and>
          dispatch E s2 controlWs (WSMessage c dat dt) n = (s2, []) \<and>
          dispatch E s2 controlWs (ClientCloseEvent c code' reason') n = (s2, [])"
    by (simp add: Let_def absent_no_effect)
qed

lemma toy_connected_c1: "map_of (webSocketConnections toy_server_connected) ''c1'' = Some (0, 0)"
  by (simp add: toy_server_connected_def)

theorem closed_subconnection_witness:
  "map_of (webSocketConnections toy_server_connected) ''c1'' = Some (0, 0) \<and>
   handleTunnelWebSocketClose toy_server_connected ''c1'' (Some 1000) None =
     (toy_server_connected
        \<lparr>webSocketConnections := AList.delete ''c1'' (webSocketConnections toy_server_connected)\<rparr>,
      [EmitClose 0 (Some 1000) None, DeleteClient 0]) \<and>
   \<not> list_ex (\<lambda>(w, m, n). connects ''c1'' m)
       [(0, WSMessage ''c2'' (TextData ''hi'') DTString, []),
        (0, ClientConnectEvent ''c3'' ''/ws'' None, toy_nonce)] \<and>
   (let s1 = fst (handleTunnelWebSocketClose toy_server_connected ''c1'' (Some 1000) None);
        s2 = fst (dispatch_all toy_env s1
                    [(0, WSMessage ''c2'' (TextData ''hi'') DTString, []),
                     (0, ClientConnectEvent ''c3'' ''/ws'' None, toy_nonce)])
    in map_of (webSocketConnections s2) ''c1'' = None \<and>
       dispatch toy_env s2 0 (WSMessage ''c1'' (TextData ''late'') DTString) [] = (s2, []) \<and>
       dispatch toy_env s2 0 (ClientCloseEvent ''c1'' None None) [] = (s2, []))"
proof -
  let ?ms = "[(0, WSMessage ''c2'' (TextData ''hi'') DTString, []),
              (0, ClientConnectEvent ''c3'' ''/ws'' None, toy_nonce)]"
  note inert = closed_subconnection_is_inert
          [of toy_server_connected "''c1''" 0 0 "Some 1000" None ?ms
              toy_env 0 "TextData ''late''" DTString "[]" None None]
  have a: "map_of (webSocketConnections toy_server_connected) ''c1'' = Some (0, 0)"
    by (rule toy_connected_c1)
  have b: "\<not> list_ex (\<lambda>(w, m, n). connects ''c1'' m) ?ms"
    by simp
  note c1 = inert [THEN conjunct1, THEN mp, OF a]
  note c2 = inert [THEN conjunct2, THEN mp, OF b]
  show ?thesis by (intro conjI a b c1 c2)
qed

text \<open>
  The claim as it is worded, for every later message, fails: \<open>#handleTunnelWebSocketConnect\<close>
  sets the connection id in the map without looking at it, and the map is one for the
  whole server. After the sub-connection \<open>c1\<close> has been closed, a \<open>ws_client_connect\<close>
  with the same id registers a new mock socket, and a later \<open>ws_message\<close> carrying \<open>c1\<close>
  is delivered to the host application.
\<close>

theorem reused_id_counterexample:
  "map_of (webSocketConnections toy_server_connected) ''c1'' = Some (0, 0) \<and>
   map_of (webSocketConnections
             (fst (handleTunnelWebSocketClose toy_server_connected ''c1'' None None))) ''c1'' = None \<and>
   snd (dispatch toy_env
          (fst (dispatch toy_env
                  (fst (handleTunnelWebSocketClose toy_server_connected ''c1'' None None))
                  0 (ClientConnectEvent ''c1'' ''/ws'' None) toy_nonce))
          0 (WSMessage ''c1'' (TextData ''late'') DTString) []) =
     [EmitMessage 2 (AsIs (TextData ''late''))]"
  by (simp add: toy_server_connected_def handleTunnelWebSocketClose_def dispatch_def
        handleTunnelWebSocketConnect_def handleTunnelWebSocketMessage_def Let_def toy_env_simps)

section \<open>Closing the control socket\<close>

lemma closeLoop_emits:
  "(c, (mockWs, controlWs)) \<in> set entries \<Longrightarrow>
   EmitClose mockWs (Some 1006) (Some ''tunnel closed'') \<in> set (fst (closeLoop E controlWs entries))"
  by (induction entries) (auto simp add: split_def Let_def)

lemma closeLoop_removes:
  "(c, (mockWs, controlWs)) \<in> set entries \<Longrightarrow> \<not> emitCloseThrows E mockWs \<Longrightarrow>
   \<not> deleteClientThrows E mockWs \<Longrightarrow> c \<in> set (snd (closeLoop E controlWs entries))"
  by (induction entries) (auto simp add: split_def Let_def)

lemma map_of_fold_delete:
  "map_of (fold AList.delete ks al) c = (if c \<in> set ks then None else map_of al c)"
  by (induction ks arbitrary: al) (auto simp add: delete_conv')

text \<open>
  Claim C3, as the code has it. On the client, the \<open>close\<close> handler of the control
  socket leaves \<open>pendingRequests\<close> as it is and rejects no waiter: its only effect is to
  schedule \<open>ensureConnection\<close> after \<open>reconnectDelay\<close>. On the server, the \<open>close\<close>
  listener deletes the socket's key; every tracked sub-connection of that socket gets
  \<open>emitClose(1006, "tunnel closed")\<close>; and it is removed from the connection map when
  neither \<open>emitClose\<close> nor \<open>deleteClient\<close> throws for its mock socket.
\<close>

theorem socket_close_cleanup:
  "pendingRequests (fst (ws_onclose cs)) = pendingRequests cs \<and>
   snd (ws_onclose cs) = [SetTimeout Reconnect (reconnectDelay cs)] \<and>
   symmetricKeyBySocket (fst (onClose E s controlWs)) controlWs = None \<and>
   (map_of (webSocketConnections s) c = Some (mockWs, controlWs)
    \<longrightarrow> EmitClose mockWs (Some 1006) (Some ''tunnel closed'') \<in> set (snd (onClose E s controlWs))) \<and>
   (map_of (webSocketConnections s) c = Some (mockWs, controlWs) \<and>
    \<not> emitCloseThrows E mockWs \<and> \<not> deleteClientThrows E mockWs
    \<longrightarrow> map_of (webSocketConnections (fst (onClose E s controlWs))) c = None)"
proof (intro conjI impI)
  show "pendingRequests (fst (ws_onclose cs)) = pendingRequests cs"
    by (simp add: ws_onclose_def)
  show "snd (ws_onclose cs) = [SetTimeout Reconnect (reconnectDelay cs)]"
    by (simp add: ws_onclose_def)
  show "symmetricKeyBySocket (fst (onClose E s controlWs)) controlWs = None"
    by (simp add: onClose_def split_def Let_def)
next
  assume "map_of (webSocketConnections s) c = Some (mockWs, controlWs)"
  then have "(c, (mockWs, controlWs)) \<in> set (webSocketConnections s)"
    by (rule map_of_SomeD)
  then have "EmitClose mockWs (Some 1006) (Some ''tunnel closed'')
               \<in> set (fst (closeLoop E controlWs (webSocketConnections s)))"
    by (rule closeLoop_emits)
  then show "EmitClose mockWs (Some 1006) (Some ''tunnel closed'') \<in> set (snd (onClose E s controlWs))"
    by (simp add: onClose_def split_def Let_def)
next
  assume a: "map_of (webSocketConnections s) c = Some (mockWs, controlWs) \<and>
    \<not> emitCloseThrows E mockWs \<and> \<not> deleteClientThrows E mockWs"
  then have "(c, (mockWs, controlWs)) \<in> set (webSocketConnections s)"
    by (simp add: map_of_SomeD)
  with a have "c \<in> set (snd (closeLoop E controlWs (webSocketConnections s)))"
    by (simp add: closeLoop_removes)
  then show "map_of (webSocketConnections (fst (onClose E s controlWs))) c = None"
    by (simp add: onClose_def split_def Let_def map_of_fold_delete)
qed

theorem socket_close_witness:
  "map_of (webSocketConnections toy_server_connected) ''c2'' = Some (1, 0) \<and>
   \<not> emitCloseThrows toy_env 1 \<and> \<not> deleteClientThrows toy_env 1 \<and>
   EmitClose 1 (Some 1006) (Some ''tunnel closed'') \<in> set (snd (onClose toy_env toy_server_connected 0)) \<and>
   map_of (webSocketConnections (fst (onClose toy_env toy_server_connected 0))) ''c2'' = None \<and>
   symmetricKeyBySocket (fst (onClose toy_env toy_server_connected 0)) 0 = None \<and>
   pendingRequests (fst (ws_onclose toy_client_pending)) = pendingRequests toy_client_pending \<and>
   snd (ws_onclose toy_client_pending) = [SetTimeout Reconnect (reconnectDelay toy_client_pending)]"
proof -
  note th = socket_close_cleanup [of toy_client_pending toy_env toy_server_connected 0 "''c2''" 1]
  have a: "map_of (webSocketConnections toy_server_connected) ''c2'' = Some (1, 0)"
    by (simp add: toy_server_connected_def)
  have b: "\<not> emitCloseThrows toy_env 1" and c: "\<not> deleteClientThrows toy_env 1"
    by (simp_all add: toy_env_simps)
  from th a b c show ?thesis by simp
qed

text \<open>
  The claim as it is worded fails on the client: a waiter that is pending when the
  socket closes is still pending afterwards, and nothing was rejected.
\<close>

theorem socket_close_counterexample:
  "pendingRequests toy_client_pending ''r1'' = Some 7 \<and>
   pendingRequests (fst (ws_onclose toy_client_pending)) ''r1'' = Some 7 \<and>
   snd (ws_onclose toy_client_pending) = [SetTimeout Reconnect 1000]"
  by (simp add: toy_client_pending_def toy_client_def ws_onclose_def)

section \<open>Application errors\<close>

lemma trySendEncrypted_sends:
  "symmetricKeyBySocket s controlWs = Some key \<Longrightarrow>
   crypto_secretbox_easy (sod E) (cbor_encode E payload) n key = Some ct \<Longrightarrow>
   trySendEncrypted E s controlWs n payload = [WsSend controlWs (cbor_encode E (Enc n ct))]"
  by (simp add: trySendEncrypted_def sendEncrypted_def encryptForSocket_def)

lemma trySendEncrypted_no_app: "AppCalled req \<notin> set (trySendEncrypted E s controlWs n payload)"
  by (auto simp add: trySendEncrypted_def sendEncrypted_def split: sum.splits)

lemma handleTunnelResponse_others:
  "rid \<noteq> res_requestId r \<Longrightarrow>
   pendingRequests (fst (handleTunnelResponse s r)) rid = pendingRequests s rid"
  by (simp add: handleTunnelResponse_def Let_def split: option.splits)

lemma toy_easy:
  "crypto_secretbox_easy (sod toy_env) m toy_nonce toy_key = Some (toy_nonce @ toy_key @ m)"
  by (simp add: toy_env_def toy_sodium_def toy_nonce_def toy_key_def)

lemma toy_app_called:
  "AppCalled toy_mock_request \<in>
     set (handleTunnelHttpRequest toy_env toy_server_keyed 0 toy_request toy_nonce)"
  by (simp add: handleTunnelHttpRequest_def toy_env_simps toy_request_def toy_mock_request_def)

text \<open>
  Claim C5, as the code has it. While the control socket has its key (and the secretbox
  call succeeds), an \<open>Error\<close> that the host application throws from \<open>this.app(req, res)\<close>,
  or that the response reports by its \<open>error\<close> event, makes the server send the encrypted
  \<open>http_response\<close> with the request's id, status 500 and \<open>error\<close> set to the error's
  message. On the client, an \<open>http_response\<close> whose \<open>error\<close> is a non-empty string removes
  the waiter registered under its request id and rejects exactly that waiter with the
  message; the entry of every other request id is as it was.
\<close>

theorem application_error_reaches_waiter:
  "(symmetricKeyBySocket s controlWs = Some key \<and>
    crypto_secretbox_easy (sod E)
      (cbor_encode E
         (HTTPResponse
            \<lparr>res_requestId = req_requestId tunnelReq, res_status = 500,
             res_statusText = ''Internal Server Error'', res_headers = [], res_body = [],
             res_error = Some msg\<rparr>)) n key = Some ct
    \<longrightarrow> (AppCalled req \<in> set (handleTunnelHttpRequest E s controlWs tunnelReq n) \<and>
         app E req = AppThrows (ErrorObj msg)
         \<longrightarrow> handleTunnelHttpRequest E s controlWs tunnelReq n =
               [AppCalled req, WsSend controlWs (cbor_encode E (Enc n ct))]) \<and>
        res_on_error E s controlWs (req_requestId tunnelReq) msg n =
          [WsSend controlWs (cbor_encode E (Enc n ct))]) \<and>
   (pendingRequests cs (res_requestId r) = Some p \<and> res_error r = Some e \<and> e \<noteq> []
    \<longrightarrow> handleTunnelResponse cs r =
          (cs\<lparr>pendingRequests := (pendingRequests cs)(res_requestId r := None)\<rparr>, [Reject p e])) \<and>
   (rid \<noteq> res_requestId r
    \<longrightarrow> pendingRequests (fst (handleTunnelResponse cs r)) rid = pendingRequests cs rid)"
proof (intro conjI impI)
  assume a: "symmetricKeyBySocket s controlWs = Some key \<and>
    crypto_secretbox_easy (sod E)
      (cbor_encode E
         (HTTPResponse
            \<lparr>res_requestId = req_requestId tunnelReq, res_status = 500,
             res_statusText = ''Internal Server Error'', res_headers = [], res_body = [],
             res_error = Some msg\<rparr>)) n key = Some ct"
  then have send: "trySendEncrypted E s controlWs n
                     (HTTPResponse (errorResponse (req_requestId tunnelReq) msg)) =
                   [WsSend controlWs (cbor_encode E (Enc n ct))]"
    by (simp add: trySendEncrypted_sends errorResponse_def)
  then show "res_on_error E s controlWs (req_requestId tunnelReq) msg n =
          [WsSend controlWs (cbor_encode E (Enc n ct))]"
    by (simp add: res_on_error_def)
  assume b: "AppCalled req \<in> set (handleTunnelHttpRequest E s controlWs tunnelReq n) \<and>
         app E req = AppThrows (ErrorObj msg)"
  with send show "handleTunnelHttpRequest E s controlWs tunnelReq n =
               [AppCalled req, WsSend controlWs (cbor_encode E (Enc n ct))]"
    by (auto simp add: handleTunnelHttpRequest_def catchHttpRequest_def Let_def
          trySendEncrypted_no_app
          split: sum.splits option.splits prod.splits app_outcome.splits)
next
  assume "pendingRequests cs (res_requestId r) = Some p \<and> res_error r = Some e \<and> e \<noteq> []"
  then show "handleTunnelResponse cs r =
          (cs\<lparr>pendingRequests := (pendingRequests cs)(res_requestId r := None)\<rparr>, [Reject p e])"
    by (simp add: handleTunnelResponse_def)
next
  assume "rid \<noteq> res_requestId r"
  then show "pendingRequests (fst (handleTunnelResponse cs r)) rid = pendingRequests cs rid"
    by (rule handleTunnelResponse_others)
qed

theorem application_error_witness:
  "symmetricKeyBySocket toy_server_keyed 0 = Some toy_key \<and>
   crypto_secretbox_easy (sod toy_env)
     (cbor_encode toy_env
        (HTTPResponse
           \<lparr>res_requestId = req_requestId toy_request, res_status = 500,
            res_statusText = ''Internal Server Error'', res_headers = [], res_body = [],
            res_error = Some ''boom''\<rparr>)) toy_nonce toy_key =
     Some (toy_nonce @ toy_key @
           cbor_encode toy_env
             (HTTPResponse
                \<lparr>res_requestId = req_requestId toy_request, res_status = 500,
                 res_statusText = ''Internal Server Error'', res_headers = [], res_body = [],
                 res_error = Some ''boom''\<rparr>)) \<and>
   AppCalled toy_mock_request \<in>
     set (handleTunnelHttpRequest toy_env toy_server_keyed 0 toy_request toy_nonce) \<and>
   app toy_env toy_mock_request = AppThrows (ErrorObj ''boom'') \<and>
   handleTunnelHttpRequest toy_env toy_server_keyed 0 toy_request toy_nonce =
     [AppCalled toy_mock_request,
      WsSend 0 (cbor_encode toy_env
                  (Enc toy_nonce
                     (toy_nonce @ toy_key @
                      cbor_encode toy_env
                        (HTTPResponse
                           \<lparr>res_requestId = req_requestId toy_request, res_status = 500,
                            res_statusText = ''Internal Server Error'', res_headers = [],
                            res_body = [], res_error = Some ''boom''\<rparr>))))] \<and>
   res_on_error toy_env toy_server_keyed 0 (req_requestId toy_request) ''boom'' toy_nonce =
     [WsSend 0 (cbor_encode toy_env
                  (Enc toy_nonce
                     (toy_nonce @ toy_key @
                      cbor_encode toy_env
                        (HTTPResponse
                           \<lparr>res_requestId = req_requestId toy_request, res_status = 500,
                            res_statusText = ''Internal Server Error'', res_headers = [],
                            res_body = [], res_error = Some ''boom''\<rparr>))))] \<and>
   pendingRequests toy_client_pending (res_requestId (errorResponse ''r1'' ''boom'')) = Some 7 \<and>
   res_error (errorResponse ''r1'' ''boom'') = Some ''boom'' \<and> ''boom'' \<noteq> [] \<and>
   handleTunnelResponse toy_client_pending (errorResponse ''r1'' ''boom'') =
     (toy_client_pending
        \<lparr>pendingRequests :=
           (pendingRequests toy_client_pending)(res_requestId (errorResponse ''r1'' ''boom'') := None)\<rparr>,
      [Reject 7 ''boom'']) \<and>
   ''r2'' \<noteq> res_requestId (errorResponse ''r1'' ''boom'') \<and>
   pendingRequests (fst (handleTunnelResponse toy_client_pending (errorResponse ''r1'' ''boom''))) ''r2'' =
     pendingRequests toy_client_pending ''r2''"
proof -
  let ?resp = "HTTPResponse
           \<lparr>res_requestId = req_requestId toy_request, res_status = 500,
            res_statusText = ''Internal Server Error'', res_headers = [], res_body = [],
            res_error = Some ''boom''\<rparr>"
  note th = application_error_reaches_waiter
      [of toy_server_keyed 0 toy_key toy_env toy_request "''boom''" toy_nonce
          "toy_nonce @ toy_key @ cbor_encode toy_env ?resp" toy_mock_request
          toy_client_pending "errorResponse ''r1'' ''boom''" 7 "''boom''" "''r2''"]
  have k: "symmetricKeyBySocket toy_server_keyed 0 = Some toy_key"
    by (rule toy_keyed_key)
  have e: "crypto_secretbox_easy (sod toy_env) (cbor_encode toy_env ?resp) toy_nonce toy_key =
           Some (toy_nonce @ toy_key @ cbor_encode toy_env ?resp)"
    by (rule toy_easy)
  have a: "app toy_env toy_mock_request = AppThrows (ErrorObj ''boom'')"
    by (simp add: toy_env_simps)
  have p: "pendingRequests toy_client_pending (res_requestId (errorResponse ''r1'' ''boom'')) = Some 7"
    by (simp add: toy_client_pending_def errorResponse_def)
  have r: "res_error (errorResponse ''r1'' ''boom'') = Some ''boom''"
    by (simp add: errorResponse_def)
  have ne: "''boom'' \<noteq> []" by simp
  have d: "''r2'' \<noteq> res_requestId (errorResponse ''r1'' ''boom'')"
    by (simp add: errorResponse_def)
  from th k e toy_app_called a have s1:
    "handleTunnelHttpRequest toy_env toy_server_keyed 0 toy_request toy_nonce =
     [AppCalled toy_mock_request,
      WsSend 0 (cbor_encode toy_env (Enc toy_nonce (toy_nonce @ toy_key @ cbor_encode toy_env ?resp)))]"
    by blast
  from th k e have s2:
    "res_on_error toy_env toy_server_keyed 0 (req_requestId toy_request) ''boom'' toy_nonce =
     [WsSend 0 (cbor_encode toy_env (Enc toy_nonce (toy_nonce @ toy_key @ cbor_encode toy_env ?resp)))]"
    by blast
  from th p r ne have s3:
    "handleTunnelResponse toy_client_pending (errorResponse ''r1'' ''boom'') =
     (toy_client_pending
        \<lparr>pendingRequests :=
           (pendingRequests toy_client_pending)(res_requestId (errorResponse ''r1'' ''boom'') := None)\<rparr>,
      [Reject 7 ''boom''])"
    by blast
  from th d have s4:
    "pendingRequests (fst (handleTunnelResponse toy_client_pending (errorResponse ''r1'' ''boom''))) ''r2'' =
     pendingRequests toy_client_pending ''r2''"
    by blast
  show ?thesis
    by (intro conjI k e toy_app_called a s1 s2 p r ne s3 d s4)
qed

text \<open>
  The claim as it is worded fails for the empty message: the response the server builds
  for an error whose message is empty has its \<open>error\<close> field set, and the client resolves
  the waiter with a status-500 response instead of rejecting it.
\<close>

theorem application_error_counterexample:
  "errorResponse ''r1'' [] =
     \<lparr>res_requestId = ''r1'', res_status = 500, res_statusText = ''Internal Server Error'',
      res_headers = [], res_body = [], res_error = Some []\<rparr> \<and>
   pendingRequests toy_client_pending ''r1'' = Some 7 \<and>
   snd (handleTunnelResponse toy_client_pending (errorResponse ''r1'' [])) =
     [Resolve 7 [] 500 ''Internal Server Error'' []]"
  by (simp add: errorResponse_def toy_client_pending_def toy_client_def handleTunnelResponse_def)

section \<open>The request timeout\<close>

lemma encryptPayload_ignores_pending:
  "encryptPayload C (s\<lparr>pendingRequests := m\<rparr>) nonce msg = encryptPayload C s nonce msg"
  by (simp add: encryptPayload_def)

lemma send_ignores_pending:
  "send C (s\<lparr>pendingRequests := m\<rparr>) nonce msg = send C s nonce msg"
  by (simp add: send_def encryptPayload_ignores_pending split: option.splits)

lemma fetch_sent:
  "send C s nonce (jsval_of_request (tunnelRequest (JSON_stringify C) input init requestId)) = Inr effs
   \<Longrightarrow> fetch C s input init requestId p nonce =
         (s\<lparr>pendingRequests := (pendingRequests s)(requestId \<mapsto> p)\<rparr>,
          effs @ [SetTimeout (RequestTimeout requestId p) 30000])"
  by (simp add: fetch_def Let_def send_ignores_pending)

lemma fetch_pending:
  "pendingRequests (fst (fetch C s input init rid p nonce)) =
   (pendingRequests s)(rid \<mapsto> p)"
  by (simp add: fetch_def Let_def split: sum.splits)

lemma client_step_keeps:
  "pendingRequests s requestId \<noteq> None \<Longrightarrow> \<not> touches requestId ev \<Longrightarrow>
   pendingRequests (fst (client_step C s ev)) requestId \<noteq> None"
proof (cases ev)
  case (Fetch input init rid p nonce)
  assume "pendingRequests s requestId \<noteq> None"
  with Fetch show ?thesis by (simp add: client_step_def fetch_pending)
next
  case (Response r)
  assume "pendingRequests s requestId \<noteq> None" "\<not> touches requestId ev"
  with Response show ?thesis
    by (simp add: client_step_def handleTunnelResponse_def Let_def split: option.splits)
next
  case (TimerFired cb)
  assume "pendingRequests s requestId \<noteq> None" "\<not> touches requestId ev"
  with TimerFired show ?thesis
    by (cases cb) (simp_all add: client_step_def ensureConnection_def onRequestTimeout_def)
next
  case SocketClosed
  assume "pendingRequests s requestId \<noteq> None"
  with SocketClosed show ?thesis by (simp add: client_step_def ws_onclose_def)
qed

lemma client_run_keeps:
  "pendingRequests s requestId \<noteq> None \<Longrightarrow> \<not> list_ex (touches requestId) evs \<Longrightarrow>
   pendingRequests (fst (client_run C s evs)) requestId \<noteq> None"
proof (induction evs arbitrary: s)
  case Nil
  then show ?case by simp
next
  case (Cons ev evs)
  from Cons.prems have nt: "\<not> touches requestId ev" and rest: "\<not> list_ex (touches requestId) evs"
    by simp_all
  have "pendingRequests (fst (client_step C s ev)) requestId \<noteq> None"
    using Cons.prems(1) nt by (rule client_step_keeps)
  then have "pendingRequests (fst (client_run C (fst (client_step C s ev)) evs)) requestId \<noteq> None"
    using rest by (rule Cons.IH)
  then show ?case by (simp add: split_def Let_def)
qed

lemma toy_send:
  "send toy_client_env toy_client_ready toy_nonce
     (jsval_of_request (tunnelRequest (JSON_stringify toy_client_env) (InputString ''/uptime'') None ''r1'')) =
   Inr [WsSendText (Some ''{}'')]"
  by (simp add: send_def encryptPayload_def toy_client_ready_def toy_client_def
        toy_client_env_def toy_sodium_def toy_json_def jsval_of_request_def jsval_of_envelope_def
        toy_nonce_def toy_key_def)

text \<open>
  Claim C4, as the code has it. When \<open>send\<close> does not throw, \<open>fetch\<close> registers the
  waiter under its request id and sets a timer of 30000 ms. Whatever the client handles
  in between, other than an \<open>http_response\<close> for that request id or the timer of a fetch
  with the same id, the waiter is still registered when the timer fires; the callback
  then removes the entry from \<open>pendingRequests\<close> and rejects the promise with
  \<open>Request timeout\<close>.
\<close>

theorem sent_request_times_out:
  "send C s nonce (jsval_of_request (tunnelRequest (JSON_stringify C) input init requestId)) = Inr effs \<and>
   \<not> list_ex (touches requestId) evs
   \<longrightarrow> (let (s1, effs1) = fetch C s input init requestId p nonce;
            s2 = fst (client_run C s1 evs)
        in effs1 = effs @ [SetTimeout (RequestTimeout requestId p) 30000] \<and>
           pendingRequests s1 requestId = Some p \<and>
           onRequestTimeout s2 requestId p =
             (s2\<lparr>pendingRequests := (pendingRequests s2)(requestId := None)\<rparr>,
              [Reject p ''Request timeout'']))"
proof
  assume a: "send C s nonce (jsval_of_request (tunnelRequest (JSON_stringify C) input init requestId)) = Inr effs \<and>
   \<not> list_ex (touches requestId) evs"
  let ?s1 = "s\<lparr>pendingRequests := (pendingRequests s)(requestId \<mapsto> p)\<rparr>"
  from a have f: "fetch C s input init requestId p nonce =
                  (?s1, effs @ [SetTimeout (RequestTimeout requestId p) 30000])"
    by (simp add: fetch_sent)
  have "pendingRequests ?s1 requestId \<noteq> None" by simp
  with a have "pendingRequests (fst (client_run C ?s1 evs)) requestId \<noteq> None"
    by (simp add: client_run_keeps)
  then have "onRequestTimeout (fst (client_run C ?s1 evs)) requestId p =
             ((fst (client_run C ?s1 evs))
                \<lparr>pendingRequests := (pendingRequests (fst (client_run C ?s1 evs)))(requestId := None)\<rparr>,
              [Reject p ''Request timeout''])"
    by (simp add: onRequestTimeout_def)
  with f show "let (s1, effs1) = fetch C s input init requestId p nonce;
            s2 = fst (client_run C s1 evs)
        in effs1 = effs @ [SetTimeout (RequestTimeout requestId p) 30000] \<and>
           pendingRequests s1 requestId = Some p \<and>
           onRequestTimeout s2 requestId p =
             (s2\<lparr>pendingRequests := (pendingRequests s2)(requestId := None)\<rparr>,
              [Reject p ''Request timeout''])"
    by (simp add: Let_def)
qed

theorem sent_request_witness:
  "send toy_client_env toy_client_ready toy_nonce
     (jsval_of_request (tunnelRequest (JSON_stringify toy_client_env) (InputString ''/uptime'') None ''r1'')) =
     Inr [WsSendText (Some ''{}'')] \<and>
   \<not> list_ex (touches ''r1'')
       [Response (errorResponse ''r0'' ''x''), SocketClosed, TimerFired Reconnect] \<and>
   (let (s1, effs1) = fetch toy_client_env toy_client_ready (InputString ''/uptime'') None ''r1'' 7 toy_nonce;
        s2 = fst (client_run toy_client_env s1
                    [Response (errorResponse ''r0'' ''x''), SocketClosed, TimerFired Reconnect])
    in effs1 = [WsSendText (Some ''{}'')] @ [SetTimeout (RequestTimeout ''r1'' 7) 30000] \<and>
       pendingRequests s1 ''r1'' = Some 7 \<and>
       onRequestTimeout s2 ''r1'' 7 =
         (s2\<lparr>pendingRequests := (pendingRequests s2)(''r1'' := None)\<rparr>,
          [Reject 7 ''Request timeout'']))"
proof -
  note th = sent_request_times_out
      [of toy_client_env toy_client_ready toy_nonce "InputString ''/uptime''" None "''r1''"
          "[WsSendText (Some ''{}'')]"
          "[Response (errorResponse ''r0'' ''x''), SocketClosed, TimerFired Reconnect]" 7]
  have b: "\<not> list_ex (touches ''r1'')
       [Response (errorResponse ''r0'' ''x''), SocketClosed, TimerFired Reconnect]"
    by (simp add: errorResponse_def)
  note c = th [THEN mp, OF conjI, OF toy_send b]
  show ?thesis by (intro conjI toy_send b c)
qed

text \<open>
  The claim as it is worded fails for a fetch whose \<open>send\<close> throws: on an open socket
  whose handshake has not finished, the promise is rejected at once with the error of
  \<open>send\<close>, no timer is set, and the waiter stays in \<open>pendingRequests\<close>.
\<close>

theorem unsent_request_counterexample:
  "ws toy_client = Some OPEN \<and> symmetricKey toy_client = None \<and>
   snd (fetch toy_client_env toy_client (InputString ''/uptime'') None ''r1'' 7 toy_nonce) =
     [Reject 7 ''Encryption not ready: missing symmetric key''] \<and>
   pendingRequests
     (fst (fetch toy_client_env toy_client (InputString ''/uptime'') None ''r1'' 7 toy_nonce)) ''r1'' =
     Some 7"
  by (simp add: fetch_def send_def toy_client_def jsval_of_request_def Let_def)

section \<open>The body of a tunnelled request\<close>

lemma toy_init_plaintext:
  "from_string (csod toy_client_env)
      (JSON_stringify toy_client_env
         (JObj [(''type'', JStr ''http_request''), (''requestId'', JStr ''r1''),
                (''method'', JStr (fetch_method (Some toy_init))),
                (''url'', JStr (fetch_url (InputString ''/uptime''))),
                (''headers'',
                 JObj (map (\<lambda>kv. (fst kv, JStr (snd kv))) (fetch_headers (Some toy_init)))),
                (''body'', (case JSON_stringify toy_client_env (init_body toy_init) of
                              None \<Rightarrow> JUndefined
                            | Some b \<Rightarrow> JStr b))])) =
   Some (map (\<lambda>c. word_of_nat (of_char c)) ''{}'')"
  by (simp add: toy_client_env_def toy_sodium_def toy_json_def)

lemma toy_client_easy:
  "crypto_secretbox_easy (csod toy_client_env) m toy_nonce toy_key = Some (toy_nonce @ toy_key @ m)"
  by (simp add: toy_client_env_def toy_sodium_def toy_nonce_def toy_key_def)

lemma toy_ready: "ws toy_client_ready = Some OPEN" "symmetricKey toy_client_ready = Some toy_key"
  by (simp_all add: toy_client_ready_def toy_client_def)

text \<open>
  Claim C10. When \<open>init.body\<close> passes the test \<open>if (init?.body)\<close>, as every object,
  array and \<open>Uint8Array\<close> does, and is not a string, the \<open>body\<close> of the tunnelled request
  is \<open>JSON.stringify(init.body)\<close>; a non-empty string is the body as it is; a body that
  fails the test (\<open>undefined\<close>, \<open>null\<close>, the empty string) leaves the request without
  a body. The request
  that \<open>fetch\<close> sends is this one. For the \<open>Uint8Array\<close> of the bytes 1 and 2 the body is
  the JSON text of the object \<open>{"0": 1, "1": 2}\<close>, not a base64 string.
  The message \<open>fetch\<close> hands to \<open>send\<close> is the object literal
  \<open>{ type: "http_request", requestId, method, url, headers, body }\<close> whose \<open>body\<close> member
  is that \<open>JSON.stringify(init.body)\<close>; on an open socket with a key, what goes on the
  wire is the JSON text of the envelope whose ciphertext is the secretbox of the JSON text
  of exactly this object, and the timer of 30000 ms is set.
\<close>

theorem fetch_body_is_json:
  "(js_truthy (init_body i) \<and> \<not> js_is_string (init_body i)
    \<longrightarrow> req_body (tunnelRequest stringify input (Some i) requestId) = stringify (init_body i)) \<and>
   (init_body i = JStr str \<and> str \<noteq> []
    \<longrightarrow> req_body (tunnelRequest stringify input (Some i) requestId) = Some str) \<and>
   (\<not> js_truthy (init_body i)
    \<longrightarrow> req_body (tunnelRequest stringify input (Some i) requestId) = None) \<and>
   (send C s nonce (jsval_of_request (tunnelRequest (JSON_stringify C) input init requestId)) = Inr effs
    \<longrightarrow> snd (fetch C s input init requestId p nonce) =
          effs @ [SetTimeout (RequestTimeout requestId p) 30000]) \<and>
   req_body (tunnelRequest (js_JSON_stringify render) input
               (Some (i\<lparr>init_body := JBytes [1, 2]\<rparr>)) requestId) =
     Some (render (JsonObj [(''0'', JsonNum 1), (''1'', JsonNum 2)])) \<and>
   (js_truthy (init_body i) \<and> \<not> js_is_string (init_body i)
    \<longrightarrow> jsval_of_request (tunnelRequest stringify input (Some i) requestId) =
          JObj [(''type'', JStr ''http_request''), (''requestId'', JStr requestId),
                (''method'', JStr (fetch_method (Some i))), (''url'', JStr (fetch_url input)),
                (''headers'', JObj (map (\<lambda>kv. (fst kv, JStr (snd kv))) (fetch_headers (Some i)))),
                (''body'', (case stringify (init_body i) of
                              None \<Rightarrow> JUndefined
                            | Some b \<Rightarrow> JStr b))]) \<and>
   (js_truthy (init_body i) \<and> \<not> js_is_string (init_body i) \<and>
    ws s = Some OPEN \<and> symmetricKey s = Some key \<and>
    from_string (csod C)
      (JSON_stringify C
         (JObj [(''type'', JStr ''http_request''), (''requestId'', JStr requestId),
                (''method'', JStr (fetch_method (Some i))), (''url'', JStr (fetch_url input)),
                (''headers'', JObj (map (\<lambda>kv. (fst kv, JStr (snd kv))) (fetch_headers (Some i)))),
                (''body'', (case JSON_stringify C (init_body i) of
                              None \<Rightarrow> JUndefined
                            | Some b \<Rightarrow> JStr b))])) = Some plaintext \<and>
    crypto_secretbox_easy (csod C) plaintext nonce key = Some ciphertext
    \<longrightarrow> fetch C s input (Some i) requestId p nonce =
          (s\<lparr>pendingRequests := (pendingRequests s)(requestId \<mapsto> p)\<rparr>,
           [WsSendText
              (JSON_stringify C
                 (JObj [(''type'', JStr ''enc''), (''nonce'', JStr (to_base64 (csod C) nonce)),
                        (''ciphertext'', JStr (to_base64 (csod C) ciphertext))])),
            SetTimeout (RequestTimeout requestId p) 30000]))"
proof (intro conjI impI)
  assume "js_truthy (init_body i) \<and> \<not> js_is_string (init_body i)"
  then show "req_body (tunnelRequest stringify input (Some i) requestId) = stringify (init_body i)"
    by (cases "init_body i") (simp_all add: tunnelRequest_def fetch_body_def)
next
  assume "init_body i = JStr str \<and> str \<noteq> []"
  then show "req_body (tunnelRequest stringify input (Some i) requestId) = Some str"
    by (simp add: tunnelRequest_def fetch_body_def)
next
  assume "\<not> js_truthy (init_body i)"
  then show "req_body (tunnelRequest stringify input (Some i) requestId) = None"
    by (simp add: tunnelRequest_def fetch_body_def)
next
  assume "send C s nonce (jsval_of_request (tunnelRequest (JSON_stringify C) input init requestId)) = Inr effs"
  then show "snd (fetch C s input init requestId p nonce) =
          effs @ [SetTimeout (RequestTimeout requestId p) 30000]"
    by (simp add: fetch_sent)
next
  show "req_body (tunnelRequest (js_JSON_stringify render) input
               (Some (i\<lparr>init_body := JBytes [1, 2]\<rparr>)) requestId) =
     Some (render (JsonObj [(''0'', JsonNum 1), (''1'', JsonNum 2)]))"
    by (simp add: tunnelRequest_def fetch_body_def js_JSON_stringify_def index_members_def
          decimal.simps)
next
  assume a: "js_truthy (init_body i) \<and> \<not> js_is_string (init_body i)"
  then have body: "fetch_body stringify (Some i) = stringify (init_body i)"
    by (cases "init_body i") (simp_all add: fetch_body_def)
  then show "jsval_of_request (tunnelRequest stringify input (Some i) requestId) =
          JObj [(''type'', JStr ''http_request''), (''requestId'', JStr requestId),
                (''method'', JStr (fetch_method (Some i))), (''url'', JStr (fetch_url input)),
                (''headers'', JObj (map (\<lambda>kv. (fst kv, JStr (snd kv))) (fetch_headers (Some i)))),
                (''body'', (case stringify (init_body i) of
                              None \<Rightarrow> JUndefined
                            | Some b \<Rightarrow> JStr b))]"
    by (simp add: jsval_of_request_def tunnelRequest_def)
next
  assume a: "js_truthy (init_body i) \<and> \<not> js_is_string (init_body i) \<and>
    ws s = Some OPEN \<and> symmetricKey s = Some key \<and>
    from_string (csod C)
      (JSON_stringify C
         (JObj [(''type'', JStr ''http_request''), (''requestId'', JStr requestId),
                (''method'', JStr (fetch_method (Some i))), (''url'', JStr (fetch_url input)),
                (''headers'', JObj (map (\<lambda>kv. (fst kv, JStr (snd kv))) (fetch_headers (Some i)))),
                (''body'', (case JSON_stringify C (init_body i) of
                              None \<Rightarrow> JUndefined
                            | Some b \<Rightarrow> JStr b))])) = Some plaintext \<and>
    crypto_secretbox_easy (csod C) plaintext nonce key = Some ciphertext"
  let ?msg = "JObj [(''type'', JStr ''http_request''), (''requestId'', JStr requestId),
                (''method'', JStr (fetch_method (Some i))), (''url'', JStr (fetch_url input)),
                (''headers'', JObj (map (\<lambda>kv. (fst kv, JStr (snd kv))) (fetch_headers (Some i)))),
                (''body'', (case JSON_stringify C (init_body i) of
                              None \<Rightarrow> JUndefined
                            | Some b \<Rightarrow> JStr b))]"
  from a have body: "fetch_body (JSON_stringify C) (Some i) = JSON_stringify C (init_body i)"
    by (cases "init_body i") (simp_all add: fetch_body_def)
  then have msg: "jsval_of_request (tunnelRequest (JSON_stringify C) input (Some i) requestId) = ?msg"
    by (simp add: jsval_of_request_def tunnelRequest_def)
  from a have enc: "encryptPayload C s nonce ?msg =
      Inr \<lparr>te_nonce = to_base64 (csod C) nonce, te_ciphertext = to_base64 (csod C) ciphertext\<rparr>"
    by (simp add: encryptPayload_def)
  have nkx: "\<not> is_client_kx ?msg" by simp
  from a enc nkx have "send C s nonce ?msg =
      Inr [WsSendText
             (JSON_stringify C
                (JObj [(''type'', JStr ''enc''), (''nonce'', JStr (to_base64 (csod C) nonce)),
                       (''ciphertext'', JStr (to_base64 (csod C) ciphertext))]))]"
    by (simp add: send_def jsval_of_envelope_def)
  with msg show "fetch C s input (Some i) requestId p nonce =
          (s\<lparr>pendingRequests := (pendingRequests s)(requestId \<mapsto> p)\<rparr>,
           [WsSendText
              (JSON_stringify C
                 (JObj [(''type'', JStr ''enc''), (''nonce'', JStr (to_base64 (csod C) nonce)),
                        (''ciphertext'', JStr (to_base64 (csod C) ciphertext))])),
            SetTimeout (RequestTimeout requestId p) 30000])"
    by (simp add: fetch_sent)
qed

theorem fetch_body_witness:
  "js_truthy (init_body toy_init) \<and> \<not> js_is_string (init_body toy_init) \<and>
   req_body (tunnelRequest toy_json (InputString ''/uptime'') (Some toy_init) ''r1'') =
     toy_json (init_body toy_init) \<and>
   init_body (toy_init\<lparr>init_body := JStr ''hi''\<rparr>) = JStr ''hi'' \<and> ''hi'' \<noteq> [] \<and>
   req_body (tunnelRequest toy_json (InputString ''/uptime'')
               (Some (toy_init\<lparr>init_body := JStr ''hi''\<rparr>)) ''r1'') = Some ''hi'' \<and>
   \<not> js_truthy (init_body (toy_init\<lparr>init_body := JNull\<rparr>)) \<and>
   req_body (tunnelRequest toy_json (InputString ''/uptime'')
               (Some (toy_init\<lparr>init_body := JNull\<rparr>)) ''r1'') = None \<and>
   send toy_client_env toy_client_ready toy_nonce
     (jsval_of_request (tunnelRequest (JSON_stringify toy_client_env) (InputString ''/uptime'') None ''r1'')) =
     Inr [WsSendText (Some ''{}'')] \<and>
   snd (fetch toy_client_env toy_client_ready (InputString ''/uptime'') None ''r1'' 7 toy_nonce) =
     [WsSendText (Some ''{}'')] @ [SetTimeout (RequestTimeout ''r1'' 7) 30000] \<and>
   jsval_of_request (tunnelRequest toy_json (InputString ''/uptime'') (Some toy_init) ''r1'') =
     JObj [(''type'', JStr ''http_request''), (''requestId'', JStr ''r1''),
                (''method'', JStr (fetch_method (Some toy_init))),
                (''url'', JStr (fetch_url (InputString ''/uptime''))),
                (''headers'',
                 JObj (map (\<lambda>kv. (fst kv, JStr (snd kv))) (fetch_headers (Some toy_init)))),
                (''body'', (case toy_json (init_body toy_init) of
                              None \<Rightarrow> JUndefined
                            | Some b \<Rightarrow> JStr b))] \<and>
   ws toy_client_ready = Some OPEN \<and> symmetricKey toy_client_ready = Some toy_key \<and>
   from_string (csod toy_client_env)
      (JSON_stringify toy_client_env
         (JObj [(''type'', JStr ''http_request''), (''requestId'', JStr ''r1''),
                (''method'', JStr (fetch_method (Some toy_init))),
                (''url'', JStr (fetch_url (InputString ''/uptime''))),
                (''headers'',
                 JObj (map (\<lambda>kv. (fst kv, JStr (snd kv))) (fetch_headers (Some toy_init)))),
                (''body'', (case JSON_stringify toy_client_env (init_body toy_init) of
                              None \<Rightarrow> JUndefined
                            | Some b \<Rightarrow> JStr b))])) =
     Some (map (\<lambda>c. word_of_nat (of_char c)) ''{}'') \<and>
   crypto_secretbox_easy (csod toy_client_env) (map (\<lambda>c. word_of_nat (of_char c)) ''{}'')
     toy_nonce toy_key =
     Some (toy_nonce @ toy_key @ map (\<lambda>c. word_of_nat (of_char c)) ''{}'') \<and>
   fetch toy_client_env toy_client_ready (InputString ''/uptime'') (Some toy_init) ''r1'' 7 toy_nonce =
     (toy_client_ready\<lparr>pendingRequests := (pendingRequests toy_client_ready)(''r1'' \<mapsto> 7)\<rparr>,
      [WsSendText
         (JSON_stringify toy_client_env
            (JObj [(''type'', JStr ''enc''),
                   (''nonce'', JStr (to_base64 (csod toy_client_env) toy_nonce)),
                   (''ciphertext'',
                    JStr (to_base64 (csod toy_client_env)
                            (toy_nonce @ toy_key @ map (\<lambda>c. word_of_nat (of_char c)) ''{}'')))])),
       SetTimeout (RequestTimeout ''r1'' 7) 30000])"
proof -
  note th4 = fetch_body_is_json
      [of toy_init toy_json "InputString ''/uptime''" "''r1''" "''hi''"
          toy_client_env toy_client_ready toy_nonce None
          "[WsSendText (Some ''{}'')]" 7 "\<lambda>j. []" toy_key
          "map (\<lambda>c. word_of_nat (of_char c)) ''{}''"
          "toy_nonce @ toy_key @ map (\<lambda>c. word_of_nat (of_char c)) ''{}''"]
  note th1 = fetch_body_is_json
      [of toy_init toy_json "InputString ''/uptime''" "''r1''" "''hi''"
          toy_client_env toy_client_ready toy_nonce None
          "[WsSendText (Some ''{}'')]" 7]
  note th2 = fetch_body_is_json
      [of "toy_init\<lparr>init_body := JStr ''hi''\<rparr>" toy_json "InputString ''/uptime''" "''r1''" "''hi''"
          toy_client_env toy_client_ready toy_nonce None
          "[WsSendText (Some ''{}'')]" 7]
  note th3 = fetch_body_is_json
      [of "toy_init\<lparr>init_body := JNull\<rparr>" toy_json "InputString ''/uptime''" "''r1''" "''hi''"
          toy_client_env toy_client_ready toy_nonce None
          "[WsSendText (Some ''{}'')]" 7]
  have f: "\<not> js_truthy (init_body (toy_init\<lparr>init_body := JNull\<rparr>))"
    by simp
  have a: "js_truthy (init_body toy_init)" and b: "\<not> js_is_string (init_body toy_init)"
    by (simp_all add: toy_init_def)
  have c: "init_body (toy_init\<lparr>init_body := JStr ''hi''\<rparr>) = JStr ''hi''" and d: "''hi'' \<noteq> []"
    by simp_all
  note r1 = th1 [THEN conjunct1, THEN mp, OF conjI, OF a b]
  note r2 = th2 [THEN conjunct2, THEN conjunct1, THEN mp, OF conjI, OF c d]
  note r3 = th3 [THEN conjunct2, THEN conjunct2, THEN conjunct1, THEN mp, OF f]
  note r4 = th1 [THEN conjunct2, THEN conjunct2, THEN conjunct2, THEN conjunct1, THEN mp, OF toy_send]
  note r5 = th4 [THEN conjunct2, THEN conjunct2, THEN conjunct2, THEN conjunct2, THEN conjunct2,
                 THEN conjunct1, THEN mp, OF conjI, OF a b]
  note e = toy_client_easy [of "map (\<lambda>c. word_of_nat (of_char c)) ''{}''"]
  note r6 = th4 [THEN conjunct2, THEN conjunct2, THEN conjunct2, THEN conjunct2, THEN conjunct2,
                 THEN conjunct2, THEN mp,
                 OF conjI [OF a conjI [OF b conjI [OF toy_ready(1) conjI [OF toy_ready(2)
                      conjI [OF toy_init_plaintext e]]]]]]
  show ?thesis
    by (intro conjI a b r1 c d r2 f r3 toy_send r4 r5 toy_ready toy_init_plaintext e r6)
qed

section \<open>Encrypting and decrypting\<close>

lemma toy_bytes_chars:
  "map (\<lambda>c. word_of_nat (of_char c)) (map (\<lambda>w. char_of (unat w)) b) = (b :: bytes)"
  by (induction b) (simp_all add: byte_char_byte del: of_char_of)

lemma toy_chars_bytes:
  "map (\<lambda>w. char_of (unat w)) (map (\<lambda>c. word_of_nat (of_char c) :: 8 word) str) = str"
  by (induction str) (simp_all add: unat_of_nat)

lemma toy_sodium_correct:
  "secretbox_correct toy_sodium" "base64_correct toy_sodium" "utf8_correct toy_sodium"
  by (simp_all add: secretbox_correct_def base64_correct_def utf8_correct_def toy_sodium_def
        toy_bytes_chars toy_chars_bytes del: map_map)

lemma same_text_same_envelope:
  "JSON_stringify C p = JSON_stringify C q \<Longrightarrow>
   encryptPayload C cs nonce p = encryptPayload C cs nonce q"
  by (simp add: encryptPayload_def split: option.splits)

lemma js_bytes_text:
  "JSON_stringify (js_client_env render parse) (JBytes [1]) =
   JSON_stringify (js_client_env render parse) (JObj [(''0'', JNum 1)])"
  by (simp add: js_client_env_def js_JSON_stringify_def index_members_def decimal.simps)

lemma toy_codec_close:
  "cbor_decode toy_env (cbor_encode toy_env (ClientCloseEvent c None None)) =
   Some (ClientCloseEvent c None None)"
  by (simp add: toy_env_def toy_encode_def toy_decode_def toy_chars_bytes del: map_map)

text \<open>
  Claim C9, as the code has it. Let libsodium keep its contracts (a secretbox opens under
  the nonce and key it was made with, base64 decoding and \<open>to_string\<close> invert base64
  encoding and \<open>from_string\<close>), the key have 32 bytes and the nonce 24. On the client,
  for every payload that \<open>JSON.parse\<close> gets back from its \<open>JSON.stringify\<close> text,
  \<open>encryptPayload\<close> returns an envelope and \<open>decryptEnvelope\<close> of it returns the payload.
  On the server, for every payload that the CBOR decoder gets back from its encoding,
  \<open>encryptForSocket\<close> returns an envelope and \<open>decryptEnvelopeForSocket\<close> of it, on the
  same socket, returns the payload.
\<close>

theorem encryption_round_trip:
  "secretbox_correct S \<and> base64_correct S \<and> utf8_correct S \<and> length key = 32 \<and> length nonce = 24
   \<longrightarrow> (csod C = S \<and> symmetricKey cs = Some key \<and>
         JSON_stringify C payload = Some txt \<and> JSON_parse C txt = Some payload
         \<longrightarrow> (\<exists>envelope. encryptPayload C cs nonce payload = Inr envelope \<and>
                         decryptEnvelope C cs envelope = Inr payload)) \<and>
        (sod E = S \<and> symmetricKeyBySocket s controlWs = Some key \<and>
         cbor_decode E (cbor_encode E msg) = Some msg
         \<longrightarrow> (\<exists>envelope. encryptForSocket E s controlWs nonce msg = Inr envelope \<and>
                         decryptEnvelopeForSocket E s controlWs envelope = Inr msg))"
proof (intro impI conjI)
  assume lib: "secretbox_correct S \<and> base64_correct S \<and> utf8_correct S \<and> length key = 32 \<and> length nonce = 24"
  assume cl: "csod C = S \<and> symmetricKey cs = Some key \<and>
         JSON_stringify C payload = Some txt \<and> JSON_parse C txt = Some payload"
  from lib obtain plaintext where pt: "from_string S (Some txt) = Some plaintext"
      "to_string S plaintext = Some txt"
    unfolding utf8_correct_def by blast
  from lib obtain ciphertext where ct: "crypto_secretbox_easy S plaintext nonce key = Some ciphertext"
      "crypto_secretbox_open_easy S ciphertext nonce key = Some plaintext"
    unfolding secretbox_correct_def by blast
  from lib have b64: "\<And>b. from_base64 S (to_base64 S b) = Some b"
    unfolding base64_correct_def by blast
  have "encryptPayload C cs nonce payload =
          Inr \<lparr>te_nonce = to_base64 S nonce, te_ciphertext = to_base64 S ciphertext\<rparr>"
    using cl pt ct by (simp add: encryptPayload_def)
  moreover have "decryptEnvelope C cs \<lparr>te_nonce = to_base64 S nonce, te_ciphertext = to_base64 S ciphertext\<rparr> =
          Inr payload"
    using cl pt ct b64 by (simp add: decryptEnvelope_def)
  ultimately show "\<exists>envelope. encryptPayload C cs nonce payload = Inr envelope \<and>
                         decryptEnvelope C cs envelope = Inr payload"
    by blast
next
  assume lib: "secretbox_correct S \<and> base64_correct S \<and> utf8_correct S \<and> length key = 32 \<and> length nonce = 24"
  assume sv: "sod E = S \<and> symmetricKeyBySocket s controlWs = Some key \<and>
         cbor_decode E (cbor_encode E msg) = Some msg"
  from lib obtain ciphertext where ct:
      "crypto_secretbox_easy S (cbor_encode E msg) nonce key = Some ciphertext"
      "crypto_secretbox_open_easy S ciphertext nonce key = Some (cbor_encode E msg)"
    unfolding secretbox_correct_def by blast
  have "encryptForSocket E s controlWs nonce msg = Inr (Enc nonce ciphertext)"
    using sv ct by (simp add: encryptForSocket_def)
  moreover have "decryptEnvelopeForSocket E s controlWs (Enc nonce ciphertext) = Inr msg"
    using sv ct by (simp add: decryptEnvelopeForSocket_def)
  ultimately show "\<exists>envelope. encryptForSocket E s controlWs nonce msg = Inr envelope \<and>
                         decryptEnvelopeForSocket E s controlWs envelope = Inr msg"
    by blast
qed

theorem encryption_round_trip_witness:
  "secretbox_correct toy_sodium \<and> base64_correct toy_sodium \<and> utf8_correct toy_sodium \<and>
   length toy_key = 32 \<and> length toy_nonce = 24 \<and>
   csod toy_client_env = toy_sodium \<and> symmetricKey toy_client_ready = Some toy_key \<and>
   JSON_stringify toy_client_env (JStr ''hi'') = Some ''hi'' \<and>
   JSON_parse toy_client_env ''hi'' = Some (JStr ''hi'') \<and>
   (\<exists>envelope. encryptPayload toy_client_env toy_client_ready toy_nonce (JStr ''hi'') = Inr envelope \<and>
               decryptEnvelope toy_client_env toy_client_ready envelope = Inr (JStr ''hi'')) \<and>
   sod toy_env = toy_sodium \<and> symmetricKeyBySocket toy_server_keyed 0 = Some toy_key \<and>
   cbor_decode toy_env (cbor_encode toy_env (ClientCloseEvent ''c1'' None None)) =
     Some (ClientCloseEvent ''c1'' None None) \<and>
   (\<exists>envelope. encryptForSocket toy_env toy_server_keyed 0 toy_nonce
                 (ClientCloseEvent ''c1'' None None) = Inr envelope \<and>
               decryptEnvelopeForSocket toy_env toy_server_keyed 0 envelope =
                 Inr (ClientCloseEvent ''c1'' None None))"
proof -
  note th = encryption_round_trip
      [of toy_sodium toy_key toy_nonce toy_client_env toy_client_ready "JStr ''hi''" "''hi''"
          toy_env toy_server_keyed 0 "ClientCloseEvent ''c1'' None None"]
  have l1: "length toy_key = 32" and l2: "length toy_nonce = 24"
    by (simp_all add: toy_key_def toy_nonce_def)
  have c1: "csod toy_client_env = toy_sodium" and c2: "symmetricKey toy_client_ready = Some toy_key"
    and c3: "JSON_stringify toy_client_env (JStr ''hi'') = Some ''hi''"
    and c4: "JSON_parse toy_client_env ''hi'' = Some (JStr ''hi'')"
    by (simp_all add: toy_client_env_def toy_client_ready_def toy_json_def)
  have s1: "sod toy_env = toy_sodium"
    by (simp add: toy_env_def)
  from th toy_sodium_correct l1 l2 c1 c2 c3 c4
  have r1: "\<exists>envelope. encryptPayload toy_client_env toy_client_ready toy_nonce (JStr ''hi'') = Inr envelope \<and>
               decryptEnvelope toy_client_env toy_client_ready envelope = Inr (JStr ''hi'')"
    by blast
  from th toy_sodium_correct l1 l2 s1 toy_keyed_key toy_codec_close
  have r2: "\<exists>envelope. encryptForSocket toy_env toy_server_keyed 0 toy_nonce
                 (ClientCloseEvent ''c1'' None None) = Inr envelope \<and>
               decryptEnvelopeForSocket toy_env toy_server_keyed 0 envelope =
                 Inr (ClientCloseEvent ''c1'' None None)"
    by blast
  show ?thesis
    by (intro conjI toy_sodium_correct l1 l2 c1 c2 c3 c4 r1 s1 toy_keyed_key toy_codec_close r2)
qed

text \<open>
  The claim as it is worded, for every payload, fails on the client. \<open>JSON.stringify\<close>
  writes the \<open>Uint8Array\<close> of the byte 1 and the object \<open>{"0": 1}\<close> as the same text, so
  both get the same envelope, and no parser returns each of them from it. The libsodium
  here is the small one, which keeps the contracts (\<open>toy_sodium_correct\<close>).
\<close>

theorem encryption_round_trip_counterexample:
  "\<not> (\<exists>render parse.
        round_trips (js_client_env render parse) toy_client_ready toy_nonce (JBytes [1]) \<and>
        round_trips (js_client_env render parse) toy_client_ready toy_nonce (JObj [(''0'', JNum 1)]))"
proof
  assume "\<exists>render parse.
        round_trips (js_client_env render parse) toy_client_ready toy_nonce (JBytes [1]) \<and>
        round_trips (js_client_env render parse) toy_client_ready toy_nonce (JObj [(''0'', JNum 1)])"
  then obtain render parse where
      a: "round_trips (js_client_env render parse) toy_client_ready toy_nonce (JBytes [1])" and
      b: "round_trips (js_client_env render parse) toy_client_ready toy_nonce (JObj [(''0'', JNum 1)])"
    by blast
  have same: "encryptPayload (js_client_env render parse) toy_client_ready toy_nonce (JBytes [1]) =
              encryptPayload (js_client_env render parse) toy_client_ready toy_nonce (JObj [(''0'', JNum 1)])"
    using js_bytes_text by (rule same_text_same_envelope)
  from a b same have "JBytes [1] = JObj [(''0'', JNum 1)]"
    by (auto simp add: round_trips_def split: sum.splits)
  then show False by simp
qed

end
